theory Spec2Isabelle
  imports Main "HOL-Library.Sublist"
begin

section \<open>Shallow embedding of \<^verbatim>\<open>tisseo.py\<close>\<close>

text \<open>
  The module is a client of the Tisseo departure API: a stop name is resolved against a
  directory loaded at import time, the next departures of the stop are fetched over HTTP,
  each one becomes a \<^verbatim>\<open>Passage\<close>, and the list is filtered and deduplicated.

  Python strings are modelled by \<^typ>\<open>string\<close>; a code point beyond ASCII stands as its
  UTF-8 bytes. Equality, concatenation and the replacement of \<^verbatim>\<open>"-"\<close> by \<^verbatim>\<open>" "\<close> act
  alike on both representations. \<^verbatim>\<open>str.lower\<close> does not (it follows the Unicode tables), so
  it is a parameter of the model, like the other library and world functions the module
  calls (\<^verbatim>\<open>datetime.strptime\<close>, \<^verbatim>\<open>pytz\<close>, \<^verbatim>\<open>datetime.now\<close>, \<^verbatim>\<open>requests.get\<close>,
  \<^verbatim>\<open>json.loads\<close>).
\<close>

subsection \<open>Exceptions\<close>

text \<open>
  Every \<^verbatim>\<open>raise\<close> of the module and every exception of the interpreter that the
  modelled paths can meet is a value. \<^verbatim>\<open>KeyError\<close>, \<^verbatim>\<open>ConnectionError\<close> and the
  \<^verbatim>\<open>TypeError\<close> of the date parser carry the message the module formats;
  \<^verbatim>\<open>UnboundLocalError\<close> carries the name of the local variable; \<^verbatim>\<open>OverflowError\<close> is
  what \<^verbatim>\<open>pytz\<close> raises when its date arithmetic leaves the range of \<^verbatim>\<open>datetime\<close>;
  \<^verbatim>\<open>LibraryError\<close> is whatever \<^verbatim>\<open>requests.get\<close> or \<^verbatim>\<open>json.loads\<close> raise themselves,
  by its name.
\<close>

datatype error =
    KeyError string
  | ConnectionError string
  | TypeError string
  | UnboundLocalError string
  | AttributeError
  | IndexError
  | OverflowError
  | LibraryError string

subsection \<open>Data\<close>

text \<open>An entry of \<^verbatim>\<open>STOP_AREAS_DICT\<close>: the keys \<^verbatim>\<open>"name"\<close> and \<^verbatim>\<open>"id"\<close>.\<close>

record stop_area =
  stop_name :: string
  stop_id :: string

text \<open>
  A departure of the API's answer: \<^verbatim>\<open>passage.get("dateTime")\<close>,
  \<^verbatim>\<open>passage.get("line").get("shortName")\<close> and the names of the entries of
  \<^verbatim>\<open>passage.get("destination")\<close>, of which the module reads entry \<^verbatim>\<open>[0]\<close>.
\<close>

record raw_departure =
  dateTime :: string
  line_shortName :: string
  destination_names :: "string list"

text \<open>
  The decoded answer \<^verbatim>\<open>j\<close>. The outer option is \<^verbatim>\<open>j.get("departures")\<close>, the inner one
  is \<^verbatim>\<open>.get("departure")\<close> on it: \<^verbatim>\<open>dict.get\<close> gives \<^verbatim>\<open>None\<close> for a missing key.
\<close>

type_synonym departures_doc = "raw_departure list option option"

record response =
  status_code :: int
  text_body :: string

text \<open>
  A time zone object of \<^verbatim>\<open>pytz\<close> as attached to a datetime: the zone's name and the
  offset from UTC in force, in microseconds.
\<close>

record tz =
  zone :: string
  utcoffset :: int

text \<open>
  A \<^verbatim>\<open>datetime\<close>: the reading of the wall clock in microseconds since
  0001-01-01 00:00:00, and \<^verbatim>\<open>tzinfo\<close> (\<^verbatim>\<open>None\<close> for a naive value).
\<close>

record datetime =
  wall :: int
  tzinfo :: "tz option"

text \<open>A \<^verbatim>\<open>datetime.timedelta\<close>, with the three attributes Python keeps normalised.\<close>

record timedelta =
  days :: int
  seconds :: int
  microseconds :: int

record Passage =
  date_str :: string
  ligne :: string
  destination :: string
  date_obj :: datetime
  timedelta :: timedelta
  timedelta_str :: string
  ligne_destination :: string

subsection \<open>The environment of a run\<close>

text \<open>
  What the module reads from outside itself. \<^verbatim>\<open>datetime_strptime s f\<close> is \<^verbatim>\<open>None\<close> when
  \<^verbatim>\<open>datetime.strptime(s, f)\<close> raises. \<^verbatim>\<open>pytz_utcoffset z t\<close> is the offset that
  \<^verbatim>\<open>pytz.timezone(z).localize\<close> chooses for the wall-clock reading \<^verbatim>\<open>t\<close>, and
  \<^verbatim>\<open>pytz_overflows z t\<close> says that this call raises \<^verbatim>\<open>OverflowError\<close> instead: a zone
  with transitions looks one day around the reading, which fails at the ends of the range of
  \<^verbatim>\<open>datetime\<close>.
  \<^verbatim>\<open>requests_get\<close> and \<^verbatim>\<open>json_loads\<close> answer with \<^verbatim>\<open>Inl\<close> and the name of the
  exception when they raise.
\<close>

record env =
  STOP_AREAS_DICT :: "stop_area list"
  TISSEO_API_KEY :: string
  str_lower :: "string \<Rightarrow> string"
  datetime_strptime :: "string \<Rightarrow> string \<Rightarrow> datetime option"
  pytz_utcoffset :: "string \<Rightarrow> int \<Rightarrow> int"
  pytz_overflows :: "string \<Rightarrow> int \<Rightarrow> bool"
  datetime_now :: datetime
  requests_get :: "string \<Rightarrow> string + response"
  json_loads :: "string \<Rightarrow> string + departures_doc"

text \<open>The effects of a run: the URLs requested and the lines printed, in order.\<close>

record world =
  requested :: "string list"
  printed :: "string list"

subsection \<open>Constants of the module\<close>

definition URL_TISSEO_API :: string where
  "URL_TISSEO_API = ''https://api.tisseo.fr/v1''"

definition DEFAULT_DATE_FORMAT :: string where
  "DEFAULT_DATE_FORMAT = ''%Y-%m-%d %H:%M:%S''"

definition TISSEO_TIMEZONE :: string where
  "TISSEO_TIMEZONE = ''Europe/Paris''"

definition AWS_LAMBDA_TIMEZONE :: string where
  "AWS_LAMBDA_TIMEZONE = ''UTC''"

subsection \<open>Library functions with a fixed meaning\<close>

text \<open>\<^verbatim>\<open>str\<close> of an integer, as \<^verbatim>\<open>"{}".format\<close> writes it.\<close>

definition digit_char :: "nat \<Rightarrow> char" where
  "digit_char n = ''0123456789'' ! n"

fun str_nat :: "nat \<Rightarrow> string" where
  "str_nat n = (if n < 10 then [digit_char n] else str_nat (n div 10) @ [digit_char (n mod 10)])"

declare str_nat.simps [simp del]

definition str_int :: "int \<Rightarrow> string" where
  "str_int i = (if i < 0 then CHR ''-'' # str_nat (nat (- i)) else str_nat (nat i))"

text \<open>\<^verbatim>\<open>s.replace("-", " ")\<close>.\<close>

definition replace_hyphen :: "string \<Rightarrow> string" where
  "replace_hyphen s = map (\<lambda>c. if c = CHR ''-'' then CHR '' '' else c) s"

text \<open>
  The constructor of \<^verbatim>\<open>timedelta\<close> normalises: \<^verbatim>\<open>0 <= seconds < 86400\<close> and
  \<^verbatim>\<open>0 <= microseconds < 1000000\<close>, the sign going to \<^verbatim>\<open>days\<close>.
\<close>

definition timedelta_of_microseconds :: "int \<Rightarrow> timedelta" where
  "timedelta_of_microseconds us =
     \<lparr>days = us div 86400000000,
      seconds = (us mod 86400000000) div 1000000,
      microseconds = us mod 1000000\<rparr>"

text \<open>
  \<^verbatim>\<open>a - b\<close> on datetimes: two aware values are compared as instants of UTC, two naive
  ones by their readings, and a mixed pair raises.
\<close>

definition datetime_sub :: "datetime \<Rightarrow> datetime \<Rightarrow> error + timedelta" where
  "datetime_sub a b =
     (case (tzinfo a, tzinfo b) of
        (None, None) \<Rightarrow> Inr (timedelta_of_microseconds (wall a - wall b))
      | (Some ta, Some tb) \<Rightarrow>
          Inr (timedelta_of_microseconds ((wall a - utcoffset ta) - (wall b - utcoffset tb)))
      | _ \<Rightarrow> Inl (TypeError ''can't subtract offset-naive and offset-aware datetimes''))"

text \<open>
  \<^verbatim>\<open>pytz.timezone(z).localize(dt)\<close> on a naive \<^verbatim>\<open>dt\<close>: same reading, zone attached. The
  zone UTC attaches itself with no arithmetic and so never raises; another zone raises
  \<^verbatim>\<open>OverflowError\<close> where the environment says so.
\<close>

definition localize :: "env \<Rightarrow> string \<Rightarrow> datetime \<Rightarrow> error + datetime" where
  "localize e z dt =
     (if z \<noteq> ''UTC'' \<and> pytz_overflows e z (wall dt) then Inl OverflowError
      else Inr (dt\<lparr>tzinfo := Some \<lparr>zone = z, utcoffset = pytz_utcoffset e z (wall dt)\<rparr>\<rparr>))"

subsection \<open>The functions of the module\<close>

definition str_datetime_to_datetime_obj :: "env \<Rightarrow> string \<Rightarrow> string \<Rightarrow> error + datetime" where
  "str_datetime_to_datetime_obj e str_datetime date_format =
     (case datetime_strptime e str_datetime date_format of
        None \<Rightarrow>
          Inl (TypeError (''date must match the format '' @ date_format @
                          '', received : '' @ str_datetime))
      | Some datetime_obj \<Rightarrow>
          if tzinfo datetime_obj = None
          then localize e TISSEO_TIMEZONE datetime_obj
          else Inr datetime_obj)"

definition get_timedelta :: "env \<Rightarrow> datetime \<Rightarrow> error + timedelta" where
  "get_timedelta e date_v =
     (let now0 = datetime_now e
      in case (if tzinfo now0 = None then localize e AWS_LAMBDA_TIMEZONE now0 else Inr now0) of
           Inl err \<Rightarrow> Inl err
         | Inr now1 \<Rightarrow> datetime_sub date_v now1)"

definition timedelta_to_str :: "timedelta \<Rightarrow> string" where
  "timedelta_to_str time_delta =
     (let d_days = days time_delta;
          d_hours = seconds time_delta div 3600;
          rem = seconds time_delta mod 3600;
          d_minutes = rem div 60
      in if d_days > 0 then str_int d_days @ '' jours''
         else if d_hours > 0 then
           (let delta = str_int d_hours @ '' heures''
            in if d_minutes > 0 then delta @ '' et '' @ str_int d_minutes @ '' minutes''
               else delta)
         else if d_minutes < 1 then ''moins d'une minute''
         else str_int d_minutes @ '' minutes'')"

definition Passage_init :: "env \<Rightarrow> string \<Rightarrow> string \<Rightarrow> string \<Rightarrow> error + Passage" where
  "Passage_init e date_v ligne_v destination_v =
     (case str_datetime_to_datetime_obj e date_v DEFAULT_DATE_FORMAT of
        Inl err \<Rightarrow> Inl err
      | Inr dobj \<Rightarrow>
          (case get_timedelta e dobj of
             Inl err \<Rightarrow> Inl err
           | Inr td \<Rightarrow>
               Inr \<lparr>date_str = date_v, ligne = ligne_v, destination = destination_v,
                    date_obj = dobj, timedelta = td, timedelta_str = timedelta_to_str td,
                    ligne_destination = ligne_v @ '' : '' @ destination_v\<rparr>))"

text \<open>The loop of \<^verbatim>\<open>get_stop_area_by_name\<close>, with the list it appends to.\<close>

fun stop_areas_loop :: "env \<Rightarrow> string \<Rightarrow> stop_area list \<Rightarrow> stop_area list \<Rightarrow> stop_area list" where
  "stop_areas_loop e stop_area_name [] stop_areas = stop_areas"
| "stop_areas_loop e stop_area_name (sa # rest) stop_areas =
     (if str_lower e (stop_name sa) = str_lower e stop_area_name
      then stop_areas_loop e stop_area_name rest (stop_areas @ [sa])
      else stop_areas_loop e stop_area_name rest stop_areas)"

definition get_stop_area_by_name :: "env \<Rightarrow> string \<Rightarrow> stop_area list" where
  "get_stop_area_by_name e stop_area_name =
     stop_areas_loop e stop_area_name (STOP_AREAS_DICT e) []"

text \<open>The URL that the first lines of \<^verbatim>\<open>get_prochains_passages_for_stop_area_id\<close> build.\<close>

definition request_url :: "env \<Rightarrow> string \<Rightarrow> int \<Rightarrow> string option \<Rightarrow> string" where
  "request_url e stop_area_id limit from_date =
     (let url = URL_TISSEO_API @ ''/stops_schedules.json?stopAreaId='' @ stop_area_id @
                ''&key='' @ TISSEO_API_KEY e @ ''&number='' @ str_int limit
      in case from_date of None \<Rightarrow> url | Some f \<Rightarrow> url @ ''&datetime='' @ f)"

definition get_prochains_passages_for_stop_area_id ::
  "env \<Rightarrow> string \<Rightarrow> int \<Rightarrow> string option \<Rightarrow> world \<Rightarrow> (error + raw_departure list option) \<times> world" where
  "get_prochains_passages_for_stop_area_id e stop_area_id limit from_date w =
     (let url = request_url e stop_area_id limit from_date;
          w1 = w\<lparr>requested := requested w @ [url]\<rparr>
      in case requests_get e url of
           Inl exc \<Rightarrow> (Inl (LibraryError exc), w1)
         | Inr ret \<Rightarrow>
             if status_code ret \<noteq> 200
             then (Inl (ConnectionError (''Status code '' @ str_int (status_code ret) @
                                         '' for url '' @ url)), w1)
             else (case json_loads e (text_body ret) of
                     Inl exc \<Rightarrow> (Inl (LibraryError exc), w1)
                   | Inr j \<Rightarrow>
                       (case j of
                          None \<Rightarrow> (Inl AttributeError, w1)
                        | Some departures \<Rightarrow> (Inr departures, w1))))"

text \<open>The two optional filters: \<^verbatim>\<open>None\<close> and the string \<^verbatim>\<open>"None"\<close> switch a filter off.\<close>

fun line_loop :: "env \<Rightarrow> string \<Rightarrow> Passage list \<Rightarrow> Passage list \<Rightarrow> Passage list" where
  "line_loop e line_v [] liste_p = liste_p"
| "line_loop e line_v (p # rest) liste_p =
     (if str_lower e (ligne p) = str_lower e line_v
      then line_loop e line_v rest (liste_p @ [p])
      else line_loop e line_v rest liste_p)"

definition filter_passages_for_one_line :: "env \<Rightarrow> Passage list \<Rightarrow> string option \<Rightarrow> Passage list" where
  "filter_passages_for_one_line e liste_prochains_passages line_arg =
     (case line_arg of
        None \<Rightarrow> liste_prochains_passages
      | Some line_v \<Rightarrow>
          if line_v \<noteq> ''None'' then line_loop e line_v liste_prochains_passages []
          else liste_prochains_passages)"

fun destination_loop :: "env \<Rightarrow> string \<Rightarrow> Passage list \<Rightarrow> Passage list \<Rightarrow> Passage list" where
  "destination_loop e dest_v [] liste_p = liste_p"
| "destination_loop e dest_v (p # rest) liste_p =
     (if replace_hyphen (str_lower e (destination p)) = replace_hyphen (str_lower e dest_v)
      then destination_loop e dest_v rest (liste_p @ [p])
      else destination_loop e dest_v rest liste_p)"

definition filter_passages_for_a_destination ::
  "env \<Rightarrow> Passage list \<Rightarrow> string option \<Rightarrow> Passage list" where
  "filter_passages_for_a_destination e liste_prochains_passages dest_arg =
     (case dest_arg of
        None \<Rightarrow> liste_prochains_passages
      | Some dest_v \<Rightarrow>
          if dest_v \<noteq> ''None'' then destination_loop e dest_v liste_prochains_passages []
          else liste_prochains_passages)"

text \<open>
  The last loop of \<^verbatim>\<open>_filter_passages\<close>, with its two lists: the passages kept and the
  keys \<^verbatim>\<open>ligne_destination\<close> already covered.
\<close>

fun dedup_loop :: "Passage list \<Rightarrow> Passage list \<Rightarrow> string list \<Rightarrow> Passage list" where
  "dedup_loop [] liste_p ligne_destination_couvertes = liste_p"
| "dedup_loop (p # rest) liste_p ligne_destination_couvertes =
     (if ligne_destination p \<notin> set ligne_destination_couvertes
      then dedup_loop rest (liste_p @ [p]) (ligne_destination_couvertes @ [ligne_destination p])
      else dedup_loop rest liste_p ligne_destination_couvertes)"

definition filter_passages :: "env \<Rightarrow> Passage list \<Rightarrow> string option \<Rightarrow> string option \<Rightarrow> Passage list" where
  "filter_passages e liste_prochains_passages line_arg dest_arg =
     (let l1 = filter_passages_for_one_line e liste_prochains_passages line_arg;
          l2 = filter_passages_for_a_destination e l1 dest_arg
      in dedup_loop l2 [] [])"

text \<open>
  The loop of \<^verbatim>\<open>prochains_passages\<close> that builds the passages; \<^verbatim>\<open>[0]\<close> on a
  departure with no destination raises \<^verbatim>\<open>IndexError\<close>, and the first exception ends
  the loop.
\<close>

fun passages_loop :: "env \<Rightarrow> raw_departure list \<Rightarrow> Passage list \<Rightarrow> error + Passage list" where
  "passages_loop e [] liste_prochains_passages = Inr liste_prochains_passages"
| "passages_loop e (passage # rest) liste_prochains_passages =
     (case destination_names passage of
        [] \<Rightarrow> Inl IndexError
      | dest # _ \<Rightarrow>
          (case Passage_init e (dateTime passage) (line_shortName passage) dest of
             Inl err \<Rightarrow> Inl err
           | Inr p \<Rightarrow> passages_loop e rest (liste_prochains_passages @ [p])))"

text \<open>The two messages of \<^verbatim>\<open>prochains_passages\<close>: of the \<^verbatim>\<open>KeyError\<close> and of the warning.\<close>

definition unknown_stop :: "string \<Rightarrow> string" where
  "unknown_stop stop_area_name =
     ''Arr'' @ [CHR 0xC3, CHR 0xAA] @ ''t '' @ stop_area_name @ '' inconnu''"

definition several_stops :: "string \<Rightarrow> string" where
  "several_stops stop_area_name =
     ''Plusieurs arr'' @ [CHR 0xC3, CHR 0xAA] @ ''ts trouv'' @ [CHR 0xC3, CHR 0xA9] @
     ''s pour '' @ stop_area_name"

text \<open>
  \<^verbatim>\<open>prochains_passages\<close>. With an empty answer the first branch binds \<^verbatim>\<open>p\<close> only, so
  the \<^verbatim>\<open>return\<close> reads a local that was never bound.
\<close>

definition prochains_passages ::
  "env \<Rightarrow> string \<Rightarrow> string option \<Rightarrow> string option \<Rightarrow> world \<Rightarrow> (error + Passage list) \<times> world" where
  "prochains_passages e stop_area_name dest_arg line_arg w =
     (let stop_areas = get_stop_area_by_name e stop_area_name
      in if length stop_areas < 1
         then (Inl (KeyError (unknown_stop stop_area_name)), w)
         else
          (let w1 = (if length stop_areas > 1
                     then w\<lparr>printed := printed w @ [several_stops stop_area_name]\<rparr>
                     else w)
           in case stop_areas of
                [] \<Rightarrow> (Inl IndexError, w1)
              | first # _ \<Rightarrow>
                 (case get_prochains_passages_for_stop_area_id e (stop_id first) 15 None w1 of
                    (Inl err, w2) \<Rightarrow> (Inl err, w2)
                  | (Inr None, w2) \<Rightarrow>
                      (Inl (TypeError ''object of type 'NoneType' has no len()''), w2)
                  | (Inr (Some json_prochains_passages), w2) \<Rightarrow>
                      if length json_prochains_passages < 1
                      then (Inl (UnboundLocalError ''liste_prochains_passages''), w2)
                      else (case passages_loop e json_prochains_passages [] of
                              Inl err \<Rightarrow> (Inl err, w2)
                            | Inr liste_prochains_passages \<Rightarrow>
                                (Inr (filter_passages e liste_prochains_passages
                                        line_arg dest_arg), w2)))))"

subsection \<open>The deduplication as the specification words it\<close>

text \<open>
  The specification speaks of the first occurrence of each distinct (line, destination)
  pair: a passage is kept, and every later passage with the same pair is dropped.
\<close>

fun first_of_each_pair :: "Passage list \<Rightarrow> Passage list" where
  "first_of_each_pair [] = []"
| "first_of_each_pair (p # rest) =
     p # first_of_each_pair
           (filter (\<lambda>q. (ligne q, destination q) \<noteq> (ligne p, destination p)) rest)"

subsection \<open>The string below the days branch\<close>

text \<open>
  The three forms that \<^verbatim>\<open>_timedelta_to_str\<close> can give once the test on the days has
  failed, as a function of the seconds of the day.
\<close>

definition hours_minutes_str :: "int \<Rightarrow> string" where
  "hours_minutes_str s =
     (let h = s div 3600; m = s mod 3600 div 60
      in if h > 0
         then str_int h @ '' heures'' @
              (if m > 0 then '' et '' @ str_int m @ '' minutes'' else [])
         else if m < 1 then ''moins d'une minute''
         else str_int m @ '' minutes'')"

subsection \<open>A sample environment\<close>

text \<open>
  Concrete values for the parameters, used to run the model on examples. Each one
  behaves as the library does on the inputs of the examples: \<^verbatim>\<open>str.lower\<close> on ASCII
  text, \<^verbatim>\<open>datetime.strptime\<close> on timestamps written with all their digits, the offsets
  of \<^verbatim>\<open>pytz\<close> in winter (the examples are dated in January) and its failure on the
  first day of year 1, and \<^verbatim>\<open>json.loads\<close> on the bodies that occur.
\<close>

definition ascii_lower_char :: "char \<Rightarrow> char" where
  "ascii_lower_char c =
     (case map_of (zip ''ABCDEFGHIJKLMNOPQRSTUVWXYZ'' ''abcdefghijklmnopqrstuvwxyz'') c of
        None \<Rightarrow> c
      | Some l \<Rightarrow> l)"

definition ascii_lower :: "string \<Rightarrow> string" where
  "ascii_lower s = map ascii_lower_char s"

text \<open>
  What \<^verbatim>\<open>str.lower\<close> is known to do whatever the Unicode tables say: on ASCII text it
  lowers the letters A to Z and nothing else.
\<close>

definition lower_on_ascii :: "env \<Rightarrow> bool" where
  "lower_on_ascii e =
     (\<forall>s. (\<forall>c \<in> set s. (of_char c :: nat) < 128) \<longrightarrow> str_lower e s = ascii_lower s)"

definition digit_of :: "char \<Rightarrow> nat option" where
  "digit_of c = map_of (zip ''0123456789'' [0, 1, 2, 3, 4, 5, 6, 7, 8, 9]) c"

fun digits_value :: "string \<Rightarrow> nat \<Rightarrow> nat option" where
  "digits_value [] acc = Some acc"
| "digits_value (c # cs) acc =
     (case digit_of c of None \<Rightarrow> None | Some d \<Rightarrow> digits_value cs (10 * acc + d))"

definition is_leap :: "nat \<Rightarrow> bool" where
  "is_leap y = (y mod 4 = 0 \<and> (y mod 100 \<noteq> 0 \<or> y mod 400 = 0))"

definition days_in_month :: "nat \<Rightarrow> nat \<Rightarrow> nat" where
  "days_in_month y m =
     (if m = 2 then (if is_leap y then 29 else 28)
      else if m = 4 \<or> m = 6 \<or> m = 9 \<or> m = 11 then 30 else 31)"

definition days_before :: "nat \<Rightarrow> nat \<Rightarrow> nat \<Rightarrow> nat" where
  "days_before y m d =
     (y - 1) * 365 + (y - 1) div 4 - (y - 1) div 100 + (y - 1) div 400 +
     sum_list (map (days_in_month y) [1..<m]) + (d - 1)"

definition strptime_padded :: "string \<Rightarrow> string \<Rightarrow> datetime option" where
  "strptime_padded s f =
     (if f = DEFAULT_DATE_FORMAT \<and> length s = 19 \<and>
         s ! 4 = CHR ''-'' \<and> s ! 7 = CHR ''-'' \<and> s ! 10 = CHR '' '' \<and>
         s ! 13 = CHR '':'' \<and> s ! 16 = CHR '':''
      then
        (case (digits_value (take 4 s) 0, digits_value (take 2 (drop 5 s)) 0,
               digits_value (take 2 (drop 8 s)) 0, digits_value (take 2 (drop 11 s)) 0,
               digits_value (take 2 (drop 14 s)) 0, digits_value (take 2 (drop 17 s)) 0) of
           (Some y, Some m, Some d, Some h, Some mi, Some sec) \<Rightarrow>
             if 1 \<le> y \<and> 1 \<le> m \<and> m \<le> 12 \<and> 1 \<le> d \<and> d \<le> days_in_month y m \<and>
                h \<le> 23 \<and> mi \<le> 59 \<and> sec \<le> 59
             then Some \<lparr>wall = int (((days_before y m d * 24 + h) * 60 + mi) * 60 + sec) * 1000000,
                        tzinfo = None\<rparr>
             else None
         | _ \<Rightarrow> None)
      else None)"

definition winter_utcoffset :: "string \<Rightarrow> int \<Rightarrow> int" where
  "winter_utcoffset z t = (if z = ''Europe/Paris'' then 3600000000 else 0)"

text \<open>
  \<^verbatim>\<open>localize\<close> of Europe/Paris first steps one day back from the reading, which leaves the
  range of \<^verbatim>\<open>datetime\<close> on the first day of year 1.
\<close>

definition first_day_overflows :: "string \<Rightarrow> int \<Rightarrow> bool" where
  "first_day_overflows z t = (z = ''Europe/Paris'' \<and> t < 86400000000)"

definition sample_directory :: "stop_area list" where
  "sample_directory =
     [\<lparr>stop_name = ''Capitole'', stop_id = ''SA_1''\<rparr>,
      \<lparr>stop_name = ''Jean Jaur'' @ [CHR 0xC3, CHR 0xA8] @ ''s'', stop_id = ''SA_2''\<rparr>,
      \<lparr>stop_name = ''CAPITOLE'', stop_id = ''SA_3''\<rparr>]"

definition sample_departures :: "raw_departure list" where
  "sample_departures =
     [\<lparr>dateTime = ''2024-01-15 10:52:00'', line_shortName = ''L6'',
       destination_names = [''Ramonville'']\<rparr>,
      \<lparr>dateTime = ''2024-01-15 10:55:00'', line_shortName = ''109'',
       destination_names = [''Lab'' @ [CHR 0xC3, CHR 0xA8] @ ''ge'']\<rparr>,
      \<lparr>dateTime = ''2024-01-15 11:15:00'', line_shortName = ''L6'',
       destination_names = [''Ramonville'']\<rparr>,
      \<lparr>dateTime = ''2024-01-15 12:05:00'', line_shortName = ''L6'',
       destination_names = [''Castanet'']\<rparr>]"

definition body_empty :: string where
  \<open>body_empty = ''{"departures":{"departure":[]}}''\<close>

definition body_four :: string where
  \<open>body_four =
     ''{"departures":{"departure":['' @
     ''{"dateTime":"2024-01-15 10:52:00","line":{"shortName":"L6"},'' @
     ''"destination":[{"name":"Ramonville"}]},'' @
     ''{"dateTime":"2024-01-15 10:55:00","line":{"shortName":"109"},'' @
     ''"destination":[{"name":"Lab'' @ [CHR 0xC3, CHR 0xA8] @ ''ge"}]},'' @
     ''{"dateTime":"2024-01-15 11:15:00","line":{"shortName":"L6"},'' @
     ''"destination":[{"name":"Ramonville"}]},'' @
     ''{"dateTime":"2024-01-15 12:05:00","line":{"shortName":"L6"},'' @
     ''"destination":[{"name":"Castanet"}]}]}}''\<close>

definition sample_json_loads :: "string \<Rightarrow> string + departures_doc" where
  "sample_json_loads s =
     (if s = body_empty then Inr (Some (Some []))
      else if s = body_four then Inr (Some (Some sample_departures))
      else Inl ''JSONDecodeError'')"

definition sample_env :: env where
  "sample_env =
     \<lparr>STOP_AREAS_DICT = sample_directory,
      TISSEO_API_KEY = ''KEY'',
      str_lower = ascii_lower,
      datetime_strptime = strptime_padded,
      pytz_utcoffset = winter_utcoffset,
      pytz_overflows = first_day_overflows,
      datetime_now = \<lparr>wall = 63840906000000000, tzinfo = None\<rparr>,
      requests_get = (\<lambda>url. Inr \<lparr>status_code = 200, text_body = body_four\<rparr>),
      json_loads = sample_json_loads\<rparr>"

definition respond :: "int \<Rightarrow> string \<Rightarrow> env \<Rightarrow> env" where
  "respond status body e = e\<lparr>requests_get := (\<lambda>url. Inr \<lparr>status_code = status, text_body = body\<rparr>)\<rparr>"

definition world0 :: world where
  "world0 = \<lparr>requested = [], printed = []\<rparr>"

text \<open>
  The passages of the examples, written out. In the sample environment it is 09:00:00 UTC
  on 2024-01-15, that is 10:00:00 in Toulouse; \<^verbatim>\<open>paris_passage\<close> is a passage of that
  morning with its fields as \<^verbatim>\<open>Passage.__init__\<close> sets them.
\<close>

definition paris_passage :: "string \<Rightarrow> int \<Rightarrow> string \<Rightarrow> string \<Rightarrow> timedelta \<Rightarrow> string \<Rightarrow> Passage" where
  "paris_passage t reading l dst td human =
     \<lparr>date_str = t, ligne = l, destination = dst,
      date_obj = \<lparr>wall = reading,
                  tzinfo = Some \<lparr>zone = ''Europe/Paris'', utcoffset = 3600000000\<rparr>\<rparr>,
      timedelta = td, timedelta_str = human, ligne_destination = l @ '' : '' @ dst\<rparr>"

definition p_ramonville_1052 :: Passage where
  "p_ramonville_1052 =
     paris_passage ''2024-01-15 10:52:00'' 63840912720000000 ''L6'' ''Ramonville''
       \<lparr>days = 0, seconds = 3120, microseconds = 0\<rparr> ''52 minutes''"

definition p_labege_1055 :: Passage where
  "p_labege_1055 =
     paris_passage ''2024-01-15 10:55:00'' 63840912900000000 ''109''
       (''Lab'' @ [CHR 0xC3, CHR 0xA8] @ ''ge'')
       \<lparr>days = 0, seconds = 3300, microseconds = 0\<rparr> ''55 minutes''"

definition p_ramonville_1115 :: Passage where
  "p_ramonville_1115 =
     paris_passage ''2024-01-15 11:15:00'' 63840914100000000 ''L6'' ''Ramonville''
       \<lparr>days = 0, seconds = 4500, microseconds = 0\<rparr> ''1 heures et 15 minutes''"

definition p_castanet_1205 :: Passage where
  "p_castanet_1205 =
     paris_passage ''2024-01-15 12:05:00'' 63840917100000000 ''L6'' ''Castanet''
       \<lparr>days = 0, seconds = 7500, microseconds = 0\<rparr> ''2 heures et 5 minutes''"

definition p_cyprien_1052 :: Passage where
  "p_cyprien_1052 =
     paris_passage ''2024-01-15 10:52:00'' 63840912720000000 ''A'' ''Saint-Cyprien''
       \<lparr>days = 0, seconds = 3120, microseconds = 0\<rparr> ''52 minutes''"

definition p_past_0930 :: Passage where
  "p_past_0930 =
     paris_passage ''2024-01-15 09:30:00'' 63840907800000000 ''L6'' ''Ramonville''
       \<lparr>days = - 1, seconds = 84600, microseconds = 0\<rparr> ''23 heures et 30 minutes''"

definition p_colon_line :: Passage where
  "p_colon_line =
     paris_passage ''2024-01-15 10:52:00'' 63840912720000000 ''A : B'' ''C''
       \<lparr>days = 0, seconds = 3120, microseconds = 0\<rparr> ''52 minutes''"

definition p_colon_destination :: Passage where
  "p_colon_destination =
     paris_passage ''2024-01-15 10:55:00'' 63840912900000000 ''A'' ''B : C''
       \<lparr>days = 0, seconds = 3300, microseconds = 0\<rparr> ''55 minutes''"

section \<open>Running the sample environment\<close>

lemmas sample_defs = sample_env_def strptime_padded_def DEFAULT_DATE_FORMAT_def digit_of_def
  days_before_def days_in_month_def is_leap_def upt_rec winter_utcoffset_def
  first_day_overflows_def TISSEO_TIMEZONE_def AWS_LAMBDA_TIMEZONE_def

lemmas init_defs = Passage_init_def str_datetime_to_datetime_obj_def get_timedelta_def
  localize_def datetime_sub_def timedelta_of_microseconds_def timedelta_to_str_def
  str_int_def str_nat.simps digit_char_def paris_passage_def

lemma init_1052:
  "Passage_init sample_env ''2024-01-15 10:52:00'' ''L6'' ''Ramonville'' = Inr p_ramonville_1052"
  by (simp add: sample_defs init_defs p_ramonville_1052_def)

lemma init_1055:
  "Passage_init sample_env ''2024-01-15 10:55:00'' ''109'' (''Lab'' @ [CHR 0xC3, CHR 0xA8] @ ''ge'') =
     Inr p_labege_1055"
  by (simp add: sample_defs init_defs p_labege_1055_def)

lemma init_1115:
  "Passage_init sample_env ''2024-01-15 11:15:00'' ''L6'' ''Ramonville'' = Inr p_ramonville_1115"
  by (simp add: sample_defs init_defs p_ramonville_1115_def)

lemma init_1205:
  "Passage_init sample_env ''2024-01-15 12:05:00'' ''L6'' ''Castanet'' = Inr p_castanet_1205"
  by (simp add: sample_defs init_defs p_castanet_1205_def)

lemma init_0930:
  "Passage_init sample_env ''2024-01-15 09:30:00'' ''L6'' ''Ramonville'' = Inr p_past_0930"
  by (simp add: sample_defs init_defs p_past_0930_def)

lemma init_cyprien:
  "Passage_init sample_env ''2024-01-15 10:52:00'' ''A'' ''Saint-Cyprien'' = Inr p_cyprien_1052"
  by (simp add: sample_defs init_defs p_cyprien_1052_def)

lemma init_colon_line:
  "Passage_init sample_env ''2024-01-15 10:52:00'' ''A : B'' ''C'' = Inr p_colon_line"
  by (simp add: sample_defs init_defs p_colon_line_def)

lemma init_colon_destination:
  "Passage_init sample_env ''2024-01-15 10:55:00'' ''A'' ''B : C'' = Inr p_colon_destination"
  by (simp add: sample_defs init_defs p_colon_destination_def)

lemma sample_lower_on_ascii: "lower_on_ascii sample_env"
  by (simp add: lower_on_ascii_def sample_env_def)

lemma lower_on_asciiD:
  "lower_on_ascii e \<Longrightarrow> \<forall>c \<in> set s. (of_char c :: nat) < 128 \<Longrightarrow> str_lower e s = ascii_lower s"
  unfolding lower_on_ascii_def by blast

section \<open>The loops as filters\<close>

text \<open>
  Each of the three filtering loops appends the elements that pass its test to the list
  it started with, in the order it meets them.
\<close>

lemma stop_areas_loop_filter:
  "stop_areas_loop e q sas acc =
     acc @ filter (\<lambda>sa. str_lower e (stop_name sa) = str_lower e q) sas"
  by (induction sas arbitrary: acc) simp_all

lemma line_loop_filter:
  "line_loop e l ps acc = acc @ filter (\<lambda>p. str_lower e (ligne p) = str_lower e l) ps"
  by (induction ps arbitrary: acc) simp_all

lemma destination_loop_filter:
  "destination_loop e d ps acc =
     acc @ filter (\<lambda>p. replace_hyphen (str_lower e (destination p)) =
                        replace_hyphen (str_lower e d)) ps"
  by (induction ps arbitrary: acc) simp_all

section \<open>Stop resolution\<close>

text \<open>
  C5: for every query name, \<^verbatim>\<open>get_stop_area_by_name\<close> returns exactly the entries of the
  directory whose name equals the query once both are lowercased, all of them and in
  directory order; in particular, \<^verbatim>\<open>str.lower\<close> acting on ASCII text as it does, the
  query "capitole" matches an entry named "Capitole".
\<close>

theorem get_stop_area_by_name_exact:
  "get_stop_area_by_name e q =
     filter (\<lambda>sa. str_lower e (stop_name sa) = str_lower e q) (STOP_AREAS_DICT e)
   \<and> (lower_on_ascii e \<longrightarrow> sa \<in> set (STOP_AREAS_DICT e) \<longrightarrow> stop_name sa = ''Capitole'' \<longrightarrow>
        sa \<in> set (get_stop_area_by_name e ''capitole''))"
proof -
  have eq: "\<And>q. get_stop_area_by_name e q =
     filter (\<lambda>sa. str_lower e (stop_name sa) = str_lower e q) (STOP_AREAS_DICT e)"
    by (simp add: get_stop_area_by_name_def stop_areas_loop_filter)
  have "sa \<in> set (get_stop_area_by_name e ''capitole'')"
    if ok: "lower_on_ascii e" and mem: "sa \<in> set (STOP_AREAS_DICT e)"
      and nm: "stop_name sa = ''Capitole''"
  proof -
    have "str_lower e ''Capitole'' = ascii_lower ''Capitole''"
      by (rule lower_on_asciiD [OF ok]) simp
    moreover have "str_lower e ''capitole'' = ascii_lower ''capitole''"
      by (rule lower_on_asciiD [OF ok]) simp
    moreover have "ascii_lower ''Capitole'' = ascii_lower ''capitole''"
      by (simp add: ascii_lower_def ascii_lower_char_def)
    ultimately show ?thesis using mem nm by (simp add: eq)
  qed
  with eq show ?thesis by blast
qed

theorem get_stop_area_by_name_exact_witness:
  "lower_on_ascii sample_env
   \<and> \<lparr>stop_name = ''Capitole'', stop_id = ''SA_1''\<rparr> \<in> set (STOP_AREAS_DICT sample_env)
   \<and> \<lparr>stop_name = ''Capitole'', stop_id = ''SA_1''\<rparr> \<in> set (get_stop_area_by_name sample_env ''capitole'')
   \<and> get_stop_area_by_name sample_env ''capitole'' =
       [\<lparr>stop_name = ''Capitole'', stop_id = ''SA_1''\<rparr>,
        \<lparr>stop_name = ''CAPITOLE'', stop_id = ''SA_3''\<rparr>]"
  using get_stop_area_by_name_exact
          [of sample_env "''capitole''" "\<lparr>stop_name = ''Capitole'', stop_id = ''SA_1''\<rparr>"]
        sample_lower_on_ascii
  by (simp add: sample_env_def sample_directory_def ascii_lower_def ascii_lower_char_def)

section \<open>The destination filter\<close>

lemma saint_cyprien_norm:
  "replace_hyphen (ascii_lower ''Saint-Cyprien'') = replace_hyphen (ascii_lower ''Saint Cyprien'')"
  by (simp add: replace_hyphen_def ascii_lower_def ascii_lower_char_def)

text \<open>
  C4: for every list of passages and every destination argument, an absent argument and
  the string "None" leave the list unchanged; any other argument keeps exactly the
  passages whose destination, lowercased and with every hyphen replaced by a space, equals
  the argument treated the same way. So "Saint Cyprien" keeps a passage for
  "Saint-Cyprien".
\<close>

theorem filter_passages_for_a_destination_exact:
  "filter_passages_for_a_destination e ps None = ps
   \<and> filter_passages_for_a_destination e ps (Some ''None'') = ps
   \<and> (dv \<noteq> ''None'' \<longrightarrow>
        filter_passages_for_a_destination e ps (Some dv) =
          filter (\<lambda>p. replace_hyphen (str_lower e (destination p)) =
                      replace_hyphen (str_lower e dv)) ps)
   \<and> (lower_on_ascii e \<longrightarrow> destination p = ''Saint-Cyprien'' \<longrightarrow>
        filter_passages_for_a_destination e [p] (Some ''Saint Cyprien'') = [p])"
proof -
  have a: "filter_passages_for_a_destination e ps None = ps"
    by (simp add: filter_passages_for_a_destination_def)
  have b: "filter_passages_for_a_destination e ps (Some ''None'') = ps"
    by (simp add: filter_passages_for_a_destination_def)
  have c: "filter_passages_for_a_destination e qs (Some d) =
          filter (\<lambda>p. replace_hyphen (str_lower e (destination p)) =
                      replace_hyphen (str_lower e d)) qs" if "d \<noteq> ''None''" for d qs
    using that by (simp add: filter_passages_for_a_destination_def destination_loop_filter)
  have d: "filter_passages_for_a_destination e [p] (Some ''Saint Cyprien'') = [p]"
    if ok: "lower_on_ascii e" and dst: "destination p = ''Saint-Cyprien''"
  proof -
    have l1: "str_lower e ''Saint-Cyprien'' = ascii_lower ''Saint-Cyprien''"
      by (rule lower_on_asciiD [OF ok]) simp
    have l2: "str_lower e ''Saint Cyprien'' = ascii_lower ''Saint Cyprien''"
      by (rule lower_on_asciiD [OF ok]) simp
    have ne: "''Saint Cyprien'' \<noteq> ''None''" by simp
    show ?thesis
      unfolding c [OF ne] using saint_cyprien_norm by (simp add: dst l1 l2)
  qed
  from a b c d show ?thesis by blast
qed

theorem filter_passages_for_a_destination_exact_witness:
  "lower_on_ascii sample_env
   \<and> destination p_cyprien_1052 = ''Saint-Cyprien''
   \<and> filter_passages_for_a_destination sample_env [p_cyprien_1052] (Some ''Saint Cyprien'') =
       [p_cyprien_1052]
   \<and> filter_passages_for_a_destination sample_env [p_cyprien_1052, p_castanet_1205]
       (Some ''saint-cyprien'') = [p_cyprien_1052]
   \<and> filter_passages_for_a_destination sample_env [p_cyprien_1052, p_castanet_1205]
       (Some ''None'') = [p_cyprien_1052, p_castanet_1205]"
  using filter_passages_for_a_destination_exact
          [of sample_env "[p_cyprien_1052]" "''Saint Cyprien''" p_cyprien_1052]
        filter_passages_for_a_destination_exact
          [of sample_env "[p_cyprien_1052, p_castanet_1205]" "''saint-cyprien''" p_cyprien_1052]
        sample_lower_on_ascii
  by (simp add: sample_env_def p_cyprien_1052_def p_castanet_1205_def paris_passage_def
        ascii_lower_def ascii_lower_char_def replace_hyphen_def)

section \<open>The human string of a duration\<close>

text \<open>
  C3: for every duration, with hours and minutes taken from the seconds of the day by
  division by 3600 and then 60, the string is "{days} jours" when days > 0; otherwise
  "{hours} heures" when hours > 0, with " et {minutes} minutes" appended exactly when
  minutes > 0; otherwise "moins d'une minute" when minutes < 1; otherwise
  "{minutes} minutes". Days 0, hours 2, minutes 15 give "2 heures et 15 minutes" and days
  0, hours 0, minutes 0 give "moins d'une minute".
\<close>

theorem timedelta_to_str_precedence:
  "(days td > 0 \<longrightarrow> timedelta_to_str td = str_int (days td) @ '' jours'')
   \<and> (days td \<le> 0 \<and> seconds td div 3600 > 0 \<and> seconds td mod 3600 div 60 > 0 \<longrightarrow>
        timedelta_to_str td =
          str_int (seconds td div 3600) @ '' heures'' @ '' et '' @
          str_int (seconds td mod 3600 div 60) @ '' minutes'')
   \<and> (days td \<le> 0 \<and> seconds td div 3600 > 0 \<and> seconds td mod 3600 div 60 \<le> 0 \<longrightarrow>
        timedelta_to_str td = str_int (seconds td div 3600) @ '' heures'')
   \<and> (days td \<le> 0 \<and> seconds td div 3600 \<le> 0 \<and> seconds td mod 3600 div 60 < 1 \<longrightarrow>
        timedelta_to_str td = ''moins d'une minute'')
   \<and> (days td \<le> 0 \<and> seconds td div 3600 \<le> 0 \<and> seconds td mod 3600 div 60 \<ge> 1 \<longrightarrow>
        timedelta_to_str td = str_int (seconds td mod 3600 div 60) @ '' minutes'')
   \<and> (days td = 0 \<and> seconds td div 3600 = 2 \<and> seconds td mod 3600 div 60 = 15 \<longrightarrow>
        timedelta_to_str td = ''2 heures et 15 minutes'')
   \<and> (days td = 0 \<and> seconds td div 3600 = 0 \<and> seconds td mod 3600 div 60 = 0 \<longrightarrow>
        timedelta_to_str td = ''moins d'une minute'')"
  by (simp add: timedelta_to_str_def Let_def str_int_def str_nat.simps digit_char_def)

theorem timedelta_to_str_precedence_witness:
  "timedelta_to_str \<lparr>days = 3, seconds = 4000, microseconds = 0\<rparr> = ''3 jours''
   \<and> timedelta_to_str \<lparr>days = 0, seconds = 8130, microseconds = 7\<rparr> = ''2 heures et 15 minutes''
   \<and> timedelta_to_str \<lparr>days = 0, seconds = 7200, microseconds = 0\<rparr> = ''2 heures''
   \<and> timedelta_to_str \<lparr>days = 0, seconds = 59, microseconds = 0\<rparr> = ''moins d'une minute''
   \<and> timedelta_to_str \<lparr>days = 0, seconds = 600, microseconds = 0\<rparr> = ''10 minutes''"
  using timedelta_to_str_precedence [of "\<lparr>days = 3, seconds = 4000, microseconds = 0\<rparr>"]
    timedelta_to_str_precedence [of "\<lparr>days = 0, seconds = 8130, microseconds = 7\<rparr>"]
    timedelta_to_str_precedence [of "\<lparr>days = 0, seconds = 7200, microseconds = 0\<rparr>"]
    timedelta_to_str_precedence [of "\<lparr>days = 0, seconds = 59, microseconds = 0\<rparr>"]
    timedelta_to_str_precedence [of "\<lparr>days = 0, seconds = 600, microseconds = 0\<rparr>"]
  by (simp add: str_int_def str_nat.simps digit_char_def)



section \<open>Past departures\<close>

lemma digit_char_mem: "n < 10 \<Longrightarrow> digit_char n \<in> set ''0123456789''"
  unfolding digit_char_def by (rule nth_mem) simp

lemma str_nat_digits: "set (str_nat n) \<subseteq> set ''0123456789''"
proof (induction n rule: str_nat.induct)
  case (1 n)
  show ?case
  proof (cases "n < 10")
    case True
    then show ?thesis using digit_char_mem [of n] by (subst str_nat.simps) simp
  next
    case False
    have "n mod 10 < 10" by simp
    then have "digit_char (n mod 10) \<in> set ''0123456789''" by (rule digit_char_mem)
    with False 1 show ?thesis by (subst str_nat.simps) simp
  qed
qed

lemma str_int_no_minus: "0 \<le> i \<Longrightarrow> CHR ''-'' \<notin> set (str_int i)"
  using str_nat_digits [of "nat i"] by (auto simp: str_int_def)

lemma suffix_append_short: "suffix a (xs @ b) \<Longrightarrow> length a \<le> length b \<Longrightarrow> suffix a b"
  by (meson suffixI suffix_length_suffix)

lemma td_days: "- 86400000000 < us \<Longrightarrow> us < 0 \<Longrightarrow> us div 86400000000 = (-1::int)"
  by linarith

lemma td_mod: "- 86400000000 < us \<Longrightarrow> us < 0 \<Longrightarrow> us mod 86400000000 = 86400000000 + (us :: int)"
proof -
  assume a: "- 86400000000 < us" "us < 0"
  have "us mod 86400000000 = us - us div 86400000000 * 86400000000"
    by (simp add: minus_div_mult_eq_mod)
  also have "us div 86400000000 = -1" using a by (rule td_days)
  finally show ?thesis by simp
qed

lemma no_jours_heures: "\<not> suffix ''jours'' (xs @ '' heures'')"
proof
  assume "suffix ''jours'' (xs @ '' heures'')"
  then have "suffix ''jours'' '' heures''" by (rule suffix_append_short) simp
  then show False by (simp add: suffix_def)
qed

lemma no_jours_minutes: "\<not> suffix ''jours'' (xs @ '' minutes'')"
proof
  assume "suffix ''jours'' (xs @ '' minutes'')"
  then have "suffix ''jours'' '' minutes''" by (rule suffix_append_short) simp
  then show False by (simp add: suffix_def)
qed

lemma no_jours_moins: "\<not> suffix ''jours'' ''moins d'une minute''"
  by (simp add: suffix_def)

lemma timedelta_to_str_no_days:
  "days td \<le> 0 \<Longrightarrow> timedelta_to_str td = hours_minutes_str (seconds td)"
  by (simp add: timedelta_to_str_def hours_minutes_str_def Let_def)

lemma hours_minutes_str_no_minus:
  assumes "0 \<le> s"
  shows "CHR ''-'' \<notin> set (hours_minutes_str s)"
proof -
  have h: "0 \<le> s div 3600" using assms by simp
  have m: "0 \<le> s mod 3600 div 60" by simp
  show ?thesis
    using str_int_no_minus [OF h] str_int_no_minus [OF m]
    by (simp add: hours_minutes_str_def Let_def)
qed

lemma hours_minutes_str_no_jours: "\<not> suffix ''jours'' (hours_minutes_str s)"
proof -
  have a: "\<not> suffix ''jours'' (str_int h @ '' heures'')" for h
    by (rule no_jours_heures)
  have b: "\<not> suffix ''jours'' ((str_int h @ '' heures et '' @ str_int m) @ '' minutes'')" for h m
    by (rule no_jours_minutes)
  have c: "\<not> suffix ''jours'' (str_int m @ '' minutes'')" for m
    by (rule no_jours_minutes)
  show ?thesis
    using a b c no_jours_moins by (simp add: hours_minutes_str_def Let_def)
qed

lemma get_timedelta_aware:
  assumes "tzinfo date_v = Some tzd" and "tzinfo (datetime_now e) = None"
  shows "get_timedelta e date_v =
           Inr (timedelta_of_microseconds
                  ((wall date_v - utcoffset tzd) -
                   (wall (datetime_now e) - pytz_utcoffset e ''UTC'' (wall (datetime_now e)))))"
  using assms
  by (simp add: get_timedelta_def Let_def localize_def datetime_sub_def AWS_LAMBDA_TIMEZONE_def)

text \<open>
  C9: for every duration strictly between minus one day and zero, the normalised duration
  has days = -1 and a remainder of seconds between 0 and 86399, namely the seconds of the
  day left after adding one day; the days branch is skipped and the string is the hours and
  minutes of that remainder, with no minus sign and not ending in "jours". A departure 30
  minutes in the past reads "23 heures et 30 minutes". The duration \<^verbatim>\<open>_get_timedelta\<close>
  computes for an aware date is the difference of the two instants of UTC.
\<close>

theorem past_departure_complement:
  "(- 86400000000 < us \<and> us < 0 \<longrightarrow>
      days (timedelta_of_microseconds us) = - 1
      \<and> seconds (timedelta_of_microseconds us) = (86400000000 + us) div 1000000
      \<and> 0 \<le> seconds (timedelta_of_microseconds us)
      \<and> seconds (timedelta_of_microseconds us) < 86400
      \<and> timedelta_to_str (timedelta_of_microseconds us) =
          hours_minutes_str ((86400000000 + us) div 1000000)
      \<and> CHR ''-'' \<notin> set (timedelta_to_str (timedelta_of_microseconds us))
      \<and> \<not> suffix ''jours'' (timedelta_to_str (timedelta_of_microseconds us)))
   \<and> timedelta_to_str (timedelta_of_microseconds (- 1800000000)) = ''23 heures et 30 minutes''
   \<and> (tzinfo date_v = Some tzd \<and> tzinfo (datetime_now e) = None \<longrightarrow>
        get_timedelta e date_v =
          Inr (timedelta_of_microseconds
                 ((wall date_v - utcoffset tzd) -
                  (wall (datetime_now e) - pytz_utcoffset e ''UTC'' (wall (datetime_now e))))))"
proof -
  have main: "days (timedelta_of_microseconds us) = - 1
      \<and> seconds (timedelta_of_microseconds us) = (86400000000 + us) div 1000000
      \<and> 0 \<le> seconds (timedelta_of_microseconds us)
      \<and> seconds (timedelta_of_microseconds us) < 86400
      \<and> timedelta_to_str (timedelta_of_microseconds us) =
          hours_minutes_str ((86400000000 + us) div 1000000)
      \<and> CHR ''-'' \<notin> set (timedelta_to_str (timedelta_of_microseconds us))
      \<and> \<not> suffix ''jours'' (timedelta_to_str (timedelta_of_microseconds us))"
    if lo: "- 86400000000 < us" and hi: "us < 0"
  proof -
    let ?td = "timedelta_of_microseconds us"
    have d: "days ?td = - 1"
      using td_days [OF lo hi] by (simp add: timedelta_of_microseconds_def)
    have s: "seconds ?td = (86400000000 + us) div 1000000"
      using td_mod [OF lo hi] by (simp add: timedelta_of_microseconds_def)
    have s0: "0 \<le> seconds ?td" unfolding s using lo by simp
    have s1: "seconds ?td < 86400" unfolding s using hi by simp
    have str: "timedelta_to_str ?td = hours_minutes_str ((86400000000 + us) div 1000000)"
      using timedelta_to_str_no_days [of ?td] d s by simp
    have nm: "CHR ''-'' \<notin> set (timedelta_to_str ?td)"
      unfolding str using hours_minutes_str_no_minus s0 s by simp
    have nj: "\<not> suffix ''jours'' (timedelta_to_str ?td)"
      unfolding str by (rule hours_minutes_str_no_jours)
    from d s s0 s1 str nm nj show ?thesis by blast
  qed
  have ex: "timedelta_to_str (timedelta_of_microseconds (- 1800000000)) = ''23 heures et 30 minutes''"
    by (simp add: timedelta_to_str_def timedelta_of_microseconds_def str_int_def
          str_nat.simps digit_char_def)
  from main ex get_timedelta_aware [of date_v tzd e] show ?thesis by blast
qed

theorem past_departure_complement_witness:
  "- 86400000000 < (- 1800000000 :: int) \<and> (- 1800000000 :: int) < 0
   \<and> tzinfo (date_obj p_past_0930) = Some \<lparr>zone = ''Europe/Paris'', utcoffset = 3600000000\<rparr>
   \<and> tzinfo (datetime_now sample_env) = None
   \<and> get_timedelta sample_env (date_obj p_past_0930) = Inr (timedelta_of_microseconds (- 1800000000))
   \<and> timedelta_of_microseconds (- 1800000000) = \<lparr>days = - 1, seconds = 84600, microseconds = 0\<rparr>
   \<and> timedelta_to_str (timedelta_of_microseconds (- 1800000000)) = ''23 heures et 30 minutes''
   \<and> Passage_init sample_env ''2024-01-15 09:30:00'' ''L6'' ''Ramonville'' = Inr p_past_0930
   \<and> timedelta_str p_past_0930 = ''23 heures et 30 minutes''"
proof -
  let ?tz = "\<lparr>zone = ''Europe/Paris'', utcoffset = 3600000000\<rparr>"
  note c = past_departure_complement [of "- 1800000000" "date_obj p_past_0930" ?tz sample_env]
  have tz: "tzinfo (date_obj p_past_0930) = Some ?tz"
    by (simp add: p_past_0930_def paris_passage_def)
  have nw: "tzinfo (datetime_now sample_env) = None"
    by (simp add: sample_env_def)
  have us: "(wall (date_obj p_past_0930) - utcoffset ?tz) -
            (wall (datetime_now sample_env) -
             pytz_utcoffset sample_env ''UTC'' (wall (datetime_now sample_env))) = - 1800000000"
    by (simp add: p_past_0930_def paris_passage_def sample_env_def winter_utcoffset_def)
  have g: "get_timedelta sample_env (date_obj p_past_0930) =
           Inr (timedelta_of_microseconds (- 1800000000))"
    using c tz nw unfolding us by blast
  have s: "timedelta_to_str (timedelta_of_microseconds (- 1800000000)) = ''23 heures et 30 minutes''"
    using c by blast
  have td: "timedelta_of_microseconds (- 1800000000) = \<lparr>days = - 1, seconds = 84600, microseconds = 0\<rparr>"
    by (simp add: timedelta_of_microseconds_def)
  have h: "timedelta_str p_past_0930 = ''23 heures et 30 minutes''"
    by (simp add: p_past_0930_def paris_passage_def)
  from tz nw g s td h init_0930 show ?thesis by simp
qed

section \<open>Parsing the timestamp\<close>














section \<open>The fetch and the pipeline\<close>


lemma fetch_world:
  "snd (get_prochains_passages_for_stop_area_id e sid lim fd w) =
     w\<lparr>requested := requested w @ [request_url e sid lim fd]\<rparr>"
  by (simp add: get_prochains_passages_for_stop_area_id_def Let_def
           split: sum.splits option.splits)

lemma fetch_result_any_world:
  "fst (get_prochains_passages_for_stop_area_id e sid lim fd w) =
   fst (get_prochains_passages_for_stop_area_id e sid lim fd w')"
  by (simp add: get_prochains_passages_for_stop_area_id_def Let_def
           split: sum.splits option.splits)

lemma fetch_not_200:
  "requests_get e (request_url e sid lim fd) = Inr ret \<Longrightarrow> status_code ret \<noteq> 200 \<Longrightarrow>
   fst (get_prochains_passages_for_stop_area_id e sid lim fd w) =
     Inl (ConnectionError (''Status code '' @ str_int (status_code ret) @ '' for url '' @
                           request_url e sid lim fd))"
  by (simp add: get_prochains_passages_for_stop_area_id_def Let_def)

lemma fetch_200:
  "requests_get e (request_url e sid lim fd) = Inr ret \<Longrightarrow> status_code ret = 200 \<Longrightarrow>
   fst (get_prochains_passages_for_stop_area_id e sid lim fd w) =
     (case json_loads e (text_body ret) of
        Inl exc \<Rightarrow> Inl (LibraryError exc)
      | Inr None \<Rightarrow> Inl AttributeError
      | Inr (Some departures) \<Rightarrow> Inr departures)"
  by (simp add: get_prochains_passages_for_stop_area_id_def Let_def
           split: sum.splits option.splits)

lemma fetch_no_KeyError:
  "fst (get_prochains_passages_for_stop_area_id e sid lim fd w) \<noteq> Inl (KeyError m)"
  by (simp add: get_prochains_passages_for_stop_area_id_def Let_def
           split: sum.splits option.splits)

lemma Passage_init_error:
  "Passage_init e t l dst = Inl err \<Longrightarrow> (\<exists>m. err = TypeError m) \<or> err = OverflowError"
  by (auto simp: Passage_init_def str_datetime_to_datetime_obj_def get_timedelta_def
        datetime_sub_def localize_def Let_def split: sum.splits option.splits if_splits)

lemma passages_loop_no_KeyError:
  "passages_loop e ds acc \<noteq> Inl (KeyError m)"
proof (induction ds arbitrary: acc)
  case Nil
  show ?case by simp
next
  case (Cons x xs)
  show ?case
  proof (cases "destination_names x")
    case Nil
    then show ?thesis by simp
  next
    case (Cons dst rest)
    show ?thesis
    proof (cases "Passage_init e (dateTime x) (line_shortName x) dst")
      case (Inl err)
      with Passage_init_error [OF Inl] Cons show ?thesis by auto
    next
      case (Inr p)
      with Cons Cons.IH show ?thesis by simp
    qed
  qed
qed


lemma resolve_filter:
  "get_stop_area_by_name e q =
     filter (\<lambda>sa. str_lower e (stop_name sa) = str_lower e q) (STOP_AREAS_DICT e)"
  by (simp add: get_stop_area_by_name_def stop_areas_loop_filter)

lemma prochains_none:
  assumes "get_stop_area_by_name e n = []"
  shows "prochains_passages e n d l w = (Inl (KeyError (unknown_stop n)), w)"
  using assms by (simp add: prochains_passages_def)

text \<open>What \<^verbatim>\<open>prochains_passages\<close> does once a stop is resolved.\<close>

lemma prochains_some:
  assumes "get_stop_area_by_name e n = first # others"
  shows "prochains_passages e n d l w =
     (let w1 = (if others \<noteq> [] then w\<lparr>printed := printed w @ [several_stops n]\<rparr> else w);
          w2 = w1\<lparr>requested := requested w @ [request_url e (stop_id first) 15 None]\<rparr>
      in case fst (get_prochains_passages_for_stop_area_id e (stop_id first) 15 None w) of
           Inl err \<Rightarrow> (Inl err, w2)
         | Inr None \<Rightarrow> (Inl (TypeError ''object of type 'NoneType' has no len()''), w2)
         | Inr (Some ds) \<Rightarrow>
             if ds = [] then (Inl (UnboundLocalError ''liste_prochains_passages''), w2)
             else (case passages_loop e ds [] of
                     Inl err \<Rightarrow> (Inl err, w2)
                   | Inr ps \<Rightarrow> (Inr (filter_passages e ps l d), w2)))"
proof (cases others)
  case Nil
  show ?thesis
    unfolding prochains_passages_def assms Nil
    by (simp add: get_prochains_passages_for_stop_area_id_def Let_def
             split: sum.splits option.splits)
next
  case (Cons second rest)
  show ?thesis
    unfolding prochains_passages_def assms Cons
    by (simp add: get_prochains_passages_for_stop_area_id_def Let_def
             split: sum.splits option.splits)
qed


lemma sample_capitole:
  "get_stop_area_by_name sample_env ''capitole'' =
     [\<lparr>stop_name = ''Capitole'', stop_id = ''SA_1''\<rparr>,
      \<lparr>stop_name = ''CAPITOLE'', stop_id = ''SA_3''\<rparr>]"
  by (simp add: get_stop_area_by_name_def sample_env_def sample_directory_def
        ascii_lower_def ascii_lower_char_def)

lemma sample_inconnu: "get_stop_area_by_name sample_env ''Inconnu'' = []"
  by (simp add: get_stop_area_by_name_def sample_env_def sample_directory_def
        ascii_lower_def ascii_lower_char_def)

lemma sample_url:
  "request_url sample_env ''SA_1'' 15 None =
     ''https://api.tisseo.fr/v1/stops_schedules.json?stopAreaId=SA_1&key=KEY&number=15''"
  by (simp add: request_url_def URL_TISSEO_API_def sample_env_def str_int_def str_nat.simps
        digit_char_def)

lemma respond_fields:
  "requests_get (respond st body e) url = Inr \<lparr>status_code = st, text_body = body\<rparr>"
  "json_loads (respond st body e) = json_loads e"
  "STOP_AREAS_DICT (respond st body e) = STOP_AREAS_DICT e"
  "TISSEO_API_KEY (respond st body e) = TISSEO_API_KEY e"
  "str_lower (respond st body e) = str_lower e"
  by (simp_all add: respond_def)

lemma respond_url: "request_url (respond st body e) sid lim fd = request_url e sid lim fd"
  by (simp add: request_url_def respond_fields)

lemma respond_resolve: "get_stop_area_by_name (respond st body e) n = get_stop_area_by_name e n"
  by (simp add: resolve_filter respond_fields)

lemma sample_loop:
  "passages_loop sample_env sample_departures [] =
     Inr [p_ramonville_1052, p_labege_1055, p_ramonville_1115, p_castanet_1205]"
  using init_1052 init_1055 init_1115 init_1205
  by (simp add: sample_departures_def)

lemma sample_dedup:
  "filter_passages e [p_ramonville_1052, p_labege_1055, p_ramonville_1115, p_castanet_1205]
     None None = [p_ramonville_1052, p_labege_1055, p_castanet_1205]"
  by (simp add: filter_passages_def filter_passages_for_one_line_def
        filter_passages_for_a_destination_def p_ramonville_1052_def p_labege_1055_def
        p_ramonville_1115_def p_castanet_1205_def paris_passage_def)

lemma sample_fetch:
  "fst (get_prochains_passages_for_stop_area_id sample_env ''SA_1'' 15 None w) =
     Inr (Some sample_departures)"
  by (simp add: get_prochains_passages_for_stop_area_id_def Let_def sample_env_def
        sample_json_loads_def body_four_def body_empty_def)

lemma sample_departures_nonempty: "sample_departures \<noteq> []"
  by (simp add: sample_departures_def)

lemma run_capitole:
  "prochains_passages sample_env ''capitole'' None None world0 =
     (Inr [p_ramonville_1052, p_labege_1055, p_castanet_1205],
      \<lparr>requested =
         [''https://api.tisseo.fr/v1/stops_schedules.json?stopAreaId=SA_1&key=KEY&number=15''],
       printed = [several_stops ''capitole'']\<rparr>)"
  by (simp add: prochains_some [OF sample_capitole] sample_fetch sample_url
        sample_departures_nonempty sample_loop sample_dedup world0_def)

lemma empty_fetch:
  "fst (get_prochains_passages_for_stop_area_id (respond 200 body_empty sample_env)
          ''SA_1'' 15 None w) = Inr (Some [])"
  by (simp add: get_prochains_passages_for_stop_area_id_def Let_def respond_fields
        sample_env_def sample_json_loads_def)

section \<open>An empty answer\<close>

text \<open>
  C1: the claim is that a resolved stop whose fetch returns zero departures gives the
  empty sequence. The module does not do so: for every resolved stop whose fetch returns
  the empty list, \<^verbatim>\<open>prochains_passages\<close> raises \<^verbatim>\<open>UnboundLocalError\<close> on the local
  \<^verbatim>\<open>liste_prochains_passages\<close>, which only the other branch binds.
\<close>

theorem empty_answer_raises:
  "get_stop_area_by_name e n = first # others \<and>
   fst (get_prochains_passages_for_stop_area_id e (stop_id first) 15 None w) = Inr (Some [])
   \<longrightarrow> fst (prochains_passages e n d l w) = Inl (UnboundLocalError ''liste_prochains_passages'')"
proof (intro impI, elim conjE)
  assume r: "get_stop_area_by_name e n = first # others"
    and f: "fst (get_prochains_passages_for_stop_area_id e (stop_id first) 15 None w) = Inr (Some [])"
  show "fst (prochains_passages e n d l w) = Inl (UnboundLocalError ''liste_prochains_passages'')"
    by (simp add: prochains_some [OF r] f Let_def)
qed

theorem empty_answer_raises_witness:
  "get_stop_area_by_name (respond 200 body_empty sample_env) ''capitole'' =
     [\<lparr>stop_name = ''Capitole'', stop_id = ''SA_1''\<rparr>,
      \<lparr>stop_name = ''CAPITOLE'', stop_id = ''SA_3''\<rparr>]
   \<and> fst (get_prochains_passages_for_stop_area_id (respond 200 body_empty sample_env)
            ''SA_1'' 15 None world0) = Inr (Some [])
   \<and> fst (prochains_passages (respond 200 body_empty sample_env) ''capitole'' None None world0) =
       Inl (UnboundLocalError ''liste_prochains_passages'')"
  using empty_answer_raises [of "respond 200 body_empty sample_env" "''capitole''"
              "\<lparr>stop_name = ''Capitole'', stop_id = ''SA_1''\<rparr>"
              "[\<lparr>stop_name = ''CAPITOLE'', stop_id = ''SA_3''\<rparr>]" world0 None None]
  by (simp add: respond_resolve sample_capitole empty_fetch)


section \<open>Unknown and ambiguous stop names\<close>

text \<open>
  C6: when no entry of the directory matches the stop name, \<^verbatim>\<open>prochains_passages\<close> raises
  the \<^verbatim>\<open>KeyError\<close> "unknown stop" and leaves the world as it was: nothing is requested
  and nothing is printed. When at least two entries match, the warning is printed, exactly
  one request is made, for the identifier of the first match in directory order, the
  outcome is never the \<^verbatim>\<open>KeyError\<close>, and when that request is answered with status 200
  and a non-empty list of departures that build, the result is the filtered list of
  their passages.
\<close>

theorem resolution_contract:
  "(filter (\<lambda>sa. str_lower e (stop_name sa) = str_lower e n) (STOP_AREAS_DICT e) = [] \<longrightarrow>
      prochains_passages e n d l w = (Inl (KeyError (unknown_stop n)), w))
   \<and> (filter (\<lambda>sa. str_lower e (stop_name sa) = str_lower e n) (STOP_AREAS_DICT e) =
         first # second # others \<longrightarrow>
       requested (snd (prochains_passages e n d l w)) =
         requested w @ [request_url e (stop_id first) 15 None]
       \<and> printed (snd (prochains_passages e n d l w)) = printed w @ [several_stops n]
       \<and> (\<forall>m. fst (prochains_passages e n d l w) \<noteq> Inl (KeyError m))
       \<and> (\<forall>ret ds ps.
             requests_get e (request_url e (stop_id first) 15 None) = Inr ret \<and>
             status_code ret = 200 \<and>
             json_loads e (text_body ret) = Inr (Some (Some ds)) \<and> ds \<noteq> [] \<and>
             passages_loop e ds [] = Inr ps \<longrightarrow>
             fst (prochains_passages e n d l w) = Inr (filter_passages e ps l d)))"
proof -
  let ?ms = "filter (\<lambda>sa. str_lower e (stop_name sa) = str_lower e n) (STOP_AREAS_DICT e)"
  let ?f = "fst (get_prochains_passages_for_stop_area_id e (stop_id first) 15 None w)"
  have none: "prochains_passages e n d l w = (Inl (KeyError (unknown_stop n)), w)" if "?ms = []"
    using that by (simp add: prochains_none resolve_filter)
  have many: "requested (snd (prochains_passages e n d l w)) =
         requested w @ [request_url e (stop_id first) 15 None]
       \<and> printed (snd (prochains_passages e n d l w)) = printed w @ [several_stops n]
       \<and> (\<forall>m. fst (prochains_passages e n d l w) \<noteq> Inl (KeyError m))
       \<and> (\<forall>ret ds ps.
             requests_get e (request_url e (stop_id first) 15 None) = Inr ret \<and>
             status_code ret = 200 \<and>
             json_loads e (text_body ret) = Inr (Some (Some ds)) \<and> ds \<noteq> [] \<and>
             passages_loop e ds [] = Inr ps \<longrightarrow>
             fst (prochains_passages e n d l w) = Inr (filter_passages e ps l d))"
    if ms: "?ms = first # second # others"
  proof -
    have r: "get_stop_area_by_name e n = first # (second # others)"
      using ms by (simp add: resolve_filter)
    note run = prochains_some [OF r, of d l w]
    have req: "requested (snd (prochains_passages e n d l w)) =
         requested w @ [request_url e (stop_id first) 15 None]"
      unfolding run by (simp add: Let_def split: sum.splits option.splits)
    have pr: "printed (snd (prochains_passages e n d l w)) = printed w @ [several_stops n]"
      unfolding run by (simp add: Let_def split: sum.splits option.splits)
    have nk: "fst (prochains_passages e n d l w) \<noteq> Inl (KeyError m)" for m
      unfolding run
      using fetch_no_KeyError [of e "stop_id first" 15 None w m] passages_loop_no_KeyError [of e _ "[]" m]
      by (auto simp: Let_def split: sum.splits option.splits)
    have go: "fst (prochains_passages e n d l w) = Inr (filter_passages e ps l d)"
      if a: "requests_get e (request_url e (stop_id first) 15 None) = Inr ret"
        and b: "status_code ret = 200"
        and c: "json_loads e (text_body ret) = Inr (Some (Some ds))" and dne: "ds \<noteq> []"
        and lp: "passages_loop e ds [] = Inr ps" for ret ds ps
    proof -
      have "?f = Inr (Some ds)" using fetch_200 [OF a b, of w] c by simp
      then show ?thesis unfolding run using dne lp by (simp add: Let_def)
    qed
    from req pr nk go show ?thesis by blast
  qed
  from none many show ?thesis by blast
qed

lemma sample_capitole_filter:
  "filter (\<lambda>sa. str_lower sample_env (stop_name sa) = str_lower sample_env ''capitole'')
     (STOP_AREAS_DICT sample_env) =
     [\<lparr>stop_name = ''Capitole'', stop_id = ''SA_1''\<rparr>,
      \<lparr>stop_name = ''CAPITOLE'', stop_id = ''SA_3''\<rparr>]"
  using sample_capitole by (simp add: resolve_filter)

lemma sample_inconnu_filter:
  "filter (\<lambda>sa. str_lower sample_env (stop_name sa) = str_lower sample_env ''Inconnu'')
     (STOP_AREAS_DICT sample_env) = []"
  using sample_inconnu by (simp only: resolve_filter)

theorem resolution_contract_witness:
  "filter (\<lambda>sa. str_lower sample_env (stop_name sa) = str_lower sample_env ''Inconnu'')
     (STOP_AREAS_DICT sample_env) = []
   \<and> prochains_passages sample_env ''Inconnu'' None None world0 =
       (Inl (KeyError (unknown_stop ''Inconnu'')), world0)
   \<and> requested world0 = []
   \<and> filter (\<lambda>sa. str_lower sample_env (stop_name sa) = str_lower sample_env ''capitole'')
       (STOP_AREAS_DICT sample_env) =
       [\<lparr>stop_name = ''Capitole'', stop_id = ''SA_1''\<rparr>,
        \<lparr>stop_name = ''CAPITOLE'', stop_id = ''SA_3''\<rparr>]
   \<and> requested (snd (prochains_passages sample_env ''capitole'' None None world0)) =
       [''https://api.tisseo.fr/v1/stops_schedules.json?stopAreaId=SA_1&key=KEY&number=15'']
   \<and> printed (snd (prochains_passages sample_env ''capitole'' None None world0)) =
       [several_stops ''capitole'']
   \<and> fst (prochains_passages sample_env ''capitole'' None None world0) =
       Inr [p_ramonville_1052, p_labege_1055, p_castanet_1205]"
proof -
  note zero = resolution_contract [of sample_env "''Inconnu''" None None world0
                    "\<lparr>stop_name = ''Capitole'', stop_id = ''SA_1''\<rparr>"
                    "\<lparr>stop_name = ''CAPITOLE'', stop_id = ''SA_3''\<rparr>" "[]"]
  note two = resolution_contract [of sample_env "''capitole''" None None world0
                   "\<lparr>stop_name = ''Capitole'', stop_id = ''SA_1''\<rparr>"
                   "\<lparr>stop_name = ''CAPITOLE'', stop_id = ''SA_3''\<rparr>" "[]"]
  have a: "prochains_passages sample_env ''Inconnu'' None None world0 =
       (Inl (KeyError (unknown_stop ''Inconnu'')), world0)"
    using zero sample_inconnu_filter by blast
  have b: "requested (snd (prochains_passages sample_env ''capitole'' None None world0)) =
             requested world0 @ [request_url sample_env ''SA_1'' 15 None]"
    and c: "printed (snd (prochains_passages sample_env ''capitole'' None None world0)) =
             printed world0 @ [several_stops ''capitole'']"
    using two sample_capitole_filter by simp_all
  have rq: "requests_get sample_env (request_url sample_env ''SA_1'' 15 None) =
              Inr \<lparr>status_code = 200, text_body = body_four\<rparr>"
    by (simp add: sample_env_def)
  have js: "json_loads sample_env body_four = Inr (Some (Some sample_departures))"
    by (simp add: sample_env_def sample_json_loads_def body_four_def body_empty_def)
  have d: "fst (prochains_passages sample_env ''capitole'' None None world0) =
       Inr (filter_passages sample_env
              [p_ramonville_1052, p_labege_1055, p_ramonville_1115, p_castanet_1205] None None)"
    using two sample_capitole_filter rq js sample_departures_nonempty sample_loop by simp
  from a b c d sample_inconnu_filter sample_capitole_filter show ?thesis
    by (simp add: sample_url sample_dedup world0_def)
qed


section \<open>The status of the answer\<close>

text \<open>
  C7, as the module has it: the fetch makes one request. For every answer whose status
  code is not 200 it fails with a \<^verbatim>\<open>ConnectionError\<close> whose message is
  "Status code {status} for url {url}": it carries the status code and the URL requested.
  For status 200 it raises no \<^verbatim>\<open>ConnectionError\<close>; it returns the departures of the
  decoded body, and fails with the decoder's exception when the body does not decode and
  with \<^verbatim>\<open>AttributeError\<close> when the document has no "departures".
\<close>

theorem fetch_status_contract:
  "requested (snd (get_prochains_passages_for_stop_area_id e sid lim fd w)) =
     requested w @ [request_url e sid lim fd]
   \<and> (requests_get e (request_url e sid lim fd) = Inr ret \<and> status_code ret \<noteq> 200 \<longrightarrow>
        fst (get_prochains_passages_for_stop_area_id e sid lim fd w) =
          Inl (ConnectionError (''Status code '' @ str_int (status_code ret) @ '' for url '' @
                                request_url e sid lim fd)))
   \<and> (requests_get e (request_url e sid lim fd) = Inr ret \<and> status_code ret = 200 \<longrightarrow>
        (\<forall>m. fst (get_prochains_passages_for_stop_area_id e sid lim fd w) \<noteq>
               Inl (ConnectionError m))
        \<and> (\<forall>ds. json_loads e (text_body ret) = Inr (Some ds) \<longrightarrow>
               fst (get_prochains_passages_for_stop_area_id e sid lim fd w) = Inr ds)
        \<and> (json_loads e (text_body ret) = Inr None \<longrightarrow>
               fst (get_prochains_passages_for_stop_area_id e sid lim fd w) = Inl AttributeError)
        \<and> (\<forall>exc. json_loads e (text_body ret) = Inl exc \<longrightarrow>
               fst (get_prochains_passages_for_stop_area_id e sid lim fd w) =
                 Inl (LibraryError exc)))"
proof -
  have a: "requested (snd (get_prochains_passages_for_stop_area_id e sid lim fd w)) =
     requested w @ [request_url e sid lim fd]"
    by (simp add: fetch_world)
  have b: "fst (get_prochains_passages_for_stop_area_id e sid lim fd w) =
          Inl (ConnectionError (''Status code '' @ str_int (status_code ret) @ '' for url '' @
                                request_url e sid lim fd))"
    if "requests_get e (request_url e sid lim fd) = Inr ret" "status_code ret \<noteq> 200"
    using that by (rule fetch_not_200)
  have c: "(\<forall>m. fst (get_prochains_passages_for_stop_area_id e sid lim fd w) \<noteq>
               Inl (ConnectionError m))
        \<and> (\<forall>ds. json_loads e (text_body ret) = Inr (Some ds) \<longrightarrow>
               fst (get_prochains_passages_for_stop_area_id e sid lim fd w) = Inr ds)
        \<and> (json_loads e (text_body ret) = Inr None \<longrightarrow>
               fst (get_prochains_passages_for_stop_area_id e sid lim fd w) = Inl AttributeError)
        \<and> (\<forall>exc. json_loads e (text_body ret) = Inl exc \<longrightarrow>
               fst (get_prochains_passages_for_stop_area_id e sid lim fd w) =
                 Inl (LibraryError exc))"
    if r: "requests_get e (request_url e sid lim fd) = Inr ret" and ok: "status_code ret = 200"
    unfolding fetch_200 [OF r ok]
    by (auto split: sum.splits option.splits)
  from a b c show ?thesis by blast
qed

lemma url_no_body:
  "\<not> sublist ''Internal Server Error''
      ''Status code 500 for url https://api.tisseo.fr/v1/stops_schedules.json?stopAreaId=SA_1&key=KEY&number=15''"
  by code_simp

lemma str_500: "str_int 500 = ''500''"
  by (simp add: str_int_def str_nat.simps digit_char_def)

text \<open>
  C7 as stated fails: the error for status 500 is the same whatever the body is, and its
  message does not contain the body; and a status 200 with a body that is not JSON raises.
\<close>

theorem fetch_error_omits_body:
  "fst (get_prochains_passages_for_stop_area_id
          (respond 500 ''Internal Server Error'' sample_env) ''SA_1'' 15 None world0) =
     Inl (ConnectionError
       ''Status code 500 for url https://api.tisseo.fr/v1/stops_schedules.json?stopAreaId=SA_1&key=KEY&number=15'')
   \<and> \<not> sublist ''Internal Server Error''
         ''Status code 500 for url https://api.tisseo.fr/v1/stops_schedules.json?stopAreaId=SA_1&key=KEY&number=15''
   \<and> fst (get_prochains_passages_for_stop_area_id
          (respond 500 ''Service Unavailable'' sample_env) ''SA_1'' 15 None world0) =
       fst (get_prochains_passages_for_stop_area_id
          (respond 500 ''Internal Server Error'' sample_env) ''SA_1'' 15 None world0)
   \<and> fst (get_prochains_passages_for_stop_area_id
          (respond 200 [] sample_env) ''SA_1'' 15 None world0) =
       Inl (LibraryError ''JSONDecodeError'')"
proof -
  have u: "request_url (respond st body sample_env) ''SA_1'' 15 None =
     ''https://api.tisseo.fr/v1/stops_schedules.json?stopAreaId=SA_1&key=KEY&number=15''"
    for st body
    by (simp add: respond_url sample_url)
  have a: "fst (get_prochains_passages_for_stop_area_id
          (respond 500 body sample_env) ''SA_1'' 15 None world0) =
     Inl (ConnectionError
       ''Status code 500 for url https://api.tisseo.fr/v1/stops_schedules.json?stopAreaId=SA_1&key=KEY&number=15'')"
    for body
    using fetch_not_200 [of "respond 500 body sample_env" "''SA_1''" 15 None
                            "\<lparr>status_code = 500, text_body = body\<rparr>" world0]
    by (simp add: respond_fields u str_500)
  have b: "fst (get_prochains_passages_for_stop_area_id
          (respond 200 [] sample_env) ''SA_1'' 15 None world0) =
       Inl (LibraryError ''JSONDecodeError'')"
    using fetch_200 [of "respond 200 [] sample_env" "''SA_1''" 15 None
                        "\<lparr>status_code = 200, text_body = []\<rparr>" world0]
    by (simp add: respond_fields sample_env_def sample_json_loads_def body_empty_def body_four_def)
  from a [of "''Internal Server Error''"] a [of "''Service Unavailable''"] b url_no_body
  show ?thesis by simp
qed

theorem fetch_status_contract_witness:
  "requests_get (respond 500 ''Internal Server Error'' sample_env)
     (request_url (respond 500 ''Internal Server Error'' sample_env) ''SA_1'' 15 None) =
     Inr \<lparr>status_code = 500, text_body = ''Internal Server Error''\<rparr>
   \<and> fst (get_prochains_passages_for_stop_area_id
          (respond 500 ''Internal Server Error'' sample_env) ''SA_1'' 15 None world0) =
     Inl (ConnectionError
       ''Status code 500 for url https://api.tisseo.fr/v1/stops_schedules.json?stopAreaId=SA_1&key=KEY&number=15'')
   \<and> requests_get sample_env (request_url sample_env ''SA_1'' 15 None) =
       Inr \<lparr>status_code = 200, text_body = body_four\<rparr>
   \<and> json_loads sample_env body_four = Inr (Some (Some sample_departures))
   \<and> fst (get_prochains_passages_for_stop_area_id sample_env ''SA_1'' 15 None world0) =
       Inr (Some sample_departures)
   \<and> requested (snd (get_prochains_passages_for_stop_area_id sample_env ''SA_1'' 15 None world0)) =
       [''https://api.tisseo.fr/v1/stops_schedules.json?stopAreaId=SA_1&key=KEY&number=15'']"
proof -
  let ?e = "respond 500 ''Internal Server Error'' sample_env"
  note bad = fetch_status_contract [of ?e "''SA_1''" 15 None world0
                   "\<lparr>status_code = 500, text_body = ''Internal Server Error''\<rparr>"]
  note good = fetch_status_contract [of sample_env "''SA_1''" 15 None world0
                    "\<lparr>status_code = 200, text_body = body_four\<rparr>"]
  have r1: "requests_get ?e (request_url ?e ''SA_1'' 15 None) =
     Inr \<lparr>status_code = 500, text_body = ''Internal Server Error''\<rparr>"
    by (simp add: respond_fields)
  have r2: "requests_get sample_env (request_url sample_env ''SA_1'' 15 None) =
       Inr \<lparr>status_code = 200, text_body = body_four\<rparr>"
    by (simp add: sample_env_def)
  have js: "json_loads sample_env body_four = Inr (Some (Some sample_departures))"
    by (simp add: sample_env_def sample_json_loads_def body_four_def body_empty_def)
  have a: "fst (get_prochains_passages_for_stop_area_id ?e ''SA_1'' 15 None world0) =
     Inl (ConnectionError (''Status code '' @ str_int 500 @ '' for url '' @
                           request_url ?e ''SA_1'' 15 None))"
    using bad r1 by simp
  have b: "fst (get_prochains_passages_for_stop_area_id sample_env ''SA_1'' 15 None world0) =
       Inr (Some sample_departures)"
    using good r2 js by simp
  have c: "requested (snd (get_prochains_passages_for_stop_area_id sample_env ''SA_1'' 15 None
             world0)) = requested world0 @ [request_url sample_env ''SA_1'' 15 None]"
    using good by blast
  from a b c r1 r2 js show ?thesis
    by (simp add: respond_url sample_url str_500 world0_def)
qed


section \<open>The deduplication\<close>

lemma upt_Suc_shift: "[0..<Suc n] = 0 # map Suc [0..<n]"
  by (simp add: upt_conv_Cons map_Suc_upt del: upt_Suc)

lemma first_index_Cons:
  "map ((!) (p # rest)) (filter P [0..<Suc (length rest)]) =
     (if P 0 then [p] else []) @ map ((!) rest) (filter (\<lambda>i. P (Suc i)) [0..<length rest])"
  unfolding upt_Suc_shift by (simp add: filter_map comp_def)

lemma all_less_Suc_shift:
  "(\<forall>j<Suc i. Q j) = (Q 0 \<and> (\<forall>j<i. Q (Suc j)))"
  by (metis less_Suc_eq_0_disj)

lemma dedup_loop_index:
  "dedup_loop ps acc seen =
     acc @ map ((!) ps)
             (filter (\<lambda>i. ligne_destination (ps ! i) \<notin> set seen \<and>
                          (\<forall>j<i. ligne_destination (ps ! j) \<noteq> ligne_destination (ps ! i)))
                [0..<length ps])"
proof (induction ps arbitrary: acc seen)
  case Nil
  show ?case by simp
next
  case (Cons p rest)
  let ?k = ligne_destination
  show ?case
  proof (cases "?k p \<in> set seen")
    case True
    have "filter (\<lambda>i. ?k (rest ! i) \<notin> set seen \<and> ?k p \<noteq> ?k (rest ! i) \<and>
                        (\<forall>j<i. ?k (rest ! j) \<noteq> ?k (rest ! i))) [0..<length rest] =
          filter (\<lambda>i. ?k (rest ! i) \<notin> set seen \<and>
                        (\<forall>j<i. ?k (rest ! j) \<noteq> ?k (rest ! i))) [0..<length rest]"
      using True by (intro filter_cong refl) auto
    with True Cons.IH [of acc seen] show ?thesis
      by (simp add: first_index_Cons all_less_Suc_shift del: upt_Suc)
  next
    case False
    have "filter (\<lambda>i. ?k (rest ! i) \<notin> set seen \<and> ?k p \<noteq> ?k (rest ! i) \<and>
                        (\<forall>j<i. ?k (rest ! j) \<noteq> ?k (rest ! i))) [0..<length rest] =
          filter (\<lambda>i. ?k (rest ! i) \<notin> set (seen @ [?k p]) \<and>
                        (\<forall>j<i. ?k (rest ! j) \<noteq> ?k (rest ! i))) [0..<length rest]"
      by (intro filter_cong refl) auto
    with False Cons.IH [of "acc @ [p]" "seen @ [?k p]"] show ?thesis
      by (simp add: first_index_Cons all_less_Suc_shift del: upt_Suc)
  qed
qed


lemma Passage_init_fields:
  "Passage_init e t l d = Inr p \<Longrightarrow>
     date_str p = t \<and> ligne p = l \<and> destination p = d \<and> ligne_destination p = l @ '' : '' @ d"
  by (auto simp: Passage_init_def split: sum.splits)

lemma filter_passages_unfiltered:
  "filter_passages e ps None None = dedup_loop ps [] []"
  by (simp add: filter_passages_def filter_passages_for_one_line_def
        filter_passages_for_a_destination_def)

lemma dedup_loop_snoc:
  "dedup_loop (xs @ [q]) acc seen =
     (if ligne_destination q \<in> set seen \<union> ligne_destination ` set xs
      then dedup_loop xs acc seen
      else dedup_loop xs acc seen @ [q])"
  by (induction xs arbitrary: acc seen) auto

lemma dedup_loop_pairs:
  assumes "\<forall>p\<in>set ps. \<forall>q\<in>set ps.
             (ligne_destination p = ligne_destination q) =
             ((ligne p, destination p) = (ligne q, destination q))"
  shows "dedup_loop ps acc seen =
           acc @ first_of_each_pair (filter (\<lambda>p. ligne_destination p \<notin> set seen) ps)"
  using assms
proof (induction ps arbitrary: acc seen)
  case Nil
  show ?case by simp
next
  case (Cons p rest)
  let ?k = ligne_destination
  have K: "\<forall>a\<in>set rest. \<forall>b\<in>set rest.
             (?k a = ?k b) = ((ligne a, destination a) = (ligne b, destination b))"
    using Cons.prems by simp
  show ?case
  proof (cases "?k p \<in> set seen")
    case True
    with Cons.IH [OF K, of acc seen] show ?thesis by simp
  next
    case False
    have same: "filter (\<lambda>q. ?k q \<notin> set (seen @ [?k p])) rest =
                filter (\<lambda>q. (ligne q, destination q) \<noteq> (ligne p, destination p))
                  (filter (\<lambda>q. ?k q \<notin> set seen) rest)"
    proof -
      have "(?k q = ?k p) = ((ligne q, destination q) = (ligne p, destination p))"
        if "q \<in> set rest" for q
        using Cons.prems that by simp
      then have "filter (\<lambda>q. ?k q \<notin> set (seen @ [?k p])) rest =
                 filter (\<lambda>q. ?k q \<notin> set seen \<and>
                              (ligne q, destination q) \<noteq> (ligne p, destination p)) rest"
        by (intro filter_cong refl) auto
      then show ?thesis by simp
    qed
    from False Cons.IH [OF K, of "acc @ [p]" "seen @ [?k p]"] show ?thesis
      unfolding same by simp
  qed
qed

text \<open>
  C2, as the module has it: for every list of passages, the last loop of
  \<^verbatim>\<open>_filter_passages\<close> keeps exactly the passages whose key \<^verbatim>\<open>ligne_destination\<close>
  ("{line} : {destination}") occurs at no earlier position of the list it runs on (the list
  left by the two filters), in their original order. The list of the example, (L6,
  Ramonville), (109, Labege with its grave accent), (L6, Ramonville), (L6, Castanet), gives
  its first, second and fourth passages. When two passages of the list have the same key
  only if they have the same (line, destination) pair, the result is the first occurrence
  of each distinct pair.
\<close>

theorem dedup_keeps_first_of_each_key:
  "filter_passages e ps line_arg dest_arg =
     (let qs = filter_passages_for_a_destination e
                 (filter_passages_for_one_line e ps line_arg) dest_arg
      in map ((!) qs)
           (filter (\<lambda>i. \<forall>j<i. ligne_destination (qs ! j) \<noteq> ligne_destination (qs ! i))
              [0..<length qs]))
   \<and> filter_passages e ps None None =
       map ((!) ps)
         (filter (\<lambda>i. \<forall>j<i. ligne_destination (ps ! j) \<noteq> ligne_destination (ps ! i))
            [0..<length ps])
   \<and> (Passage_init e t1 ''L6'' ''Ramonville'' = Inr p1 \<and>
       Passage_init e t2 ''109'' (''Lab'' @ [CHR 0xC3, CHR 0xA8] @ ''ge'') = Inr p2 \<and>
       Passage_init e t3 ''L6'' ''Ramonville'' = Inr p3 \<and>
       Passage_init e t4 ''L6'' ''Castanet'' = Inr p4 \<longrightarrow>
       filter_passages e [p1, p2, p3, p4] None None = [p1, p2, p4])
   \<and> ((\<forall>p\<in>set ps. \<forall>q\<in>set ps.
          (ligne_destination p = ligne_destination q) =
          ((ligne p, destination p) = (ligne q, destination q))) \<longrightarrow>
       filter_passages e ps None None = first_of_each_pair ps)"
proof (intro conjI impI)
  assume "\<forall>p\<in>set ps. \<forall>q\<in>set ps.
          (ligne_destination p = ligne_destination q) =
          ((ligne p, destination p) = (ligne q, destination q))"
  from dedup_loop_pairs [OF this, of "[]" "[]"]
  show "filter_passages e ps None None = first_of_each_pair ps"
    by (simp add: filter_passages_unfiltered)
next
  show "filter_passages e ps line_arg dest_arg =
     (let qs = filter_passages_for_a_destination e
                 (filter_passages_for_one_line e ps line_arg) dest_arg
      in map ((!) qs)
           (filter (\<lambda>i. \<forall>j<i. ligne_destination (qs ! j) \<noteq> ligne_destination (qs ! i))
              [0..<length qs]))"
    by (simp add: filter_passages_def Let_def dedup_loop_index)
  show "filter_passages e ps None None =
       map ((!) ps)
         (filter (\<lambda>i. \<forall>j<i. ligne_destination (ps ! j) \<noteq> ligne_destination (ps ! i))
            [0..<length ps])"
    by (simp add: filter_passages_unfiltered dedup_loop_index)
next
  assume h: "Passage_init e t1 ''L6'' ''Ramonville'' = Inr p1 \<and>
       Passage_init e t2 ''109'' (''Lab'' @ [CHR 0xC3, CHR 0xA8] @ ''ge'') = Inr p2 \<and>
       Passage_init e t3 ''L6'' ''Ramonville'' = Inr p3 \<and>
       Passage_init e t4 ''L6'' ''Castanet'' = Inr p4"
  have k1: "ligne_destination p1 = ''L6 : Ramonville''"
    using Passage_init_fields [OF h [THEN conjunct1]] by simp
  have k2: "ligne_destination p2 = ''109 : Lab'' @ [CHR 0xC3, CHR 0xA8] @ ''ge''"
    using Passage_init_fields [OF h [THEN conjunct2, THEN conjunct1]] by simp
  have k3: "ligne_destination p3 = ''L6 : Ramonville''"
    using Passage_init_fields [OF h [THEN conjunct2, THEN conjunct2, THEN conjunct1]] by simp
  have k4: "ligne_destination p4 = ''L6 : Castanet''"
    using Passage_init_fields [OF h [THEN conjunct2, THEN conjunct2, THEN conjunct2]] by simp
  show "filter_passages e [p1, p2, p3, p4] None None = [p1, p2, p4]"
    by (simp add: filter_passages_unfiltered k1 k2 k3 k4)
qed

theorem dedup_keeps_first_of_each_key_witness:
  "Passage_init sample_env ''2024-01-15 10:52:00'' ''L6'' ''Ramonville'' = Inr p_ramonville_1052
   \<and> Passage_init sample_env ''2024-01-15 10:55:00'' ''109''
        (''Lab'' @ [CHR 0xC3, CHR 0xA8] @ ''ge'') = Inr p_labege_1055
   \<and> Passage_init sample_env ''2024-01-15 11:15:00'' ''L6'' ''Ramonville'' = Inr p_ramonville_1115
   \<and> Passage_init sample_env ''2024-01-15 12:05:00'' ''L6'' ''Castanet'' = Inr p_castanet_1205
   \<and> filter_passages sample_env
        [p_ramonville_1052, p_labege_1055, p_ramonville_1115, p_castanet_1205] None None =
       [p_ramonville_1052, p_labege_1055, p_castanet_1205]
   \<and> filter_passages sample_env
        [p_ramonville_1052, p_labege_1055, p_ramonville_1115, p_castanet_1205]
        (Some ''l6'') None =
       [p_ramonville_1052, p_castanet_1205]
   \<and> first_of_each_pair [p_ramonville_1052, p_labege_1055, p_ramonville_1115, p_castanet_1205] =
       [p_ramonville_1052, p_labege_1055, p_castanet_1205]"
proof -
  let ?four = "[p_ramonville_1052, p_labege_1055, p_ramonville_1115, p_castanet_1205]"
  note ex = dedup_keeps_first_of_each_key [of sample_env ?four None None
                  "''2024-01-15 10:52:00''" p_ramonville_1052
                  "''2024-01-15 10:55:00''" p_labege_1055
                  "''2024-01-15 11:15:00''" p_ramonville_1115
                  "''2024-01-15 12:05:00''" p_castanet_1205]
  have inits: "Passage_init sample_env ''2024-01-15 10:52:00'' ''L6'' ''Ramonville'' =
        Inr p_ramonville_1052 \<and>
      Passage_init sample_env ''2024-01-15 10:55:00'' ''109''
        (''Lab'' @ [CHR 0xC3, CHR 0xA8] @ ''ge'') = Inr p_labege_1055 \<and>
      Passage_init sample_env ''2024-01-15 11:15:00'' ''L6'' ''Ramonville'' =
        Inr p_ramonville_1115 \<and>
      Passage_init sample_env ''2024-01-15 12:05:00'' ''L6'' ''Castanet'' = Inr p_castanet_1205"
    using init_1052 init_1055 init_1115 init_1205 by (intro conjI)
  have a: "filter_passages sample_env
        [p_ramonville_1052, p_labege_1055, p_ramonville_1115, p_castanet_1205] None None =
       [p_ramonville_1052, p_labege_1055, p_castanet_1205]"
    using ex [THEN conjunct2, THEN conjunct2, THEN conjunct1, THEN mp, OF inits] .
  have b: "filter_passages sample_env
        [p_ramonville_1052, p_labege_1055, p_ramonville_1115, p_castanet_1205]
        (Some ''l6'') None =
       [p_ramonville_1052, p_castanet_1205]"
    by (simp add: filter_passages_def filter_passages_for_one_line_def
        filter_passages_for_a_destination_def p_ramonville_1052_def p_labege_1055_def
        p_ramonville_1115_def p_castanet_1205_def paris_passage_def sample_env_def
        ascii_lower_def ascii_lower_char_def)
  have K: "\<forall>p\<in>set ?four. \<forall>q\<in>set ?four.
          (ligne_destination p = ligne_destination q) =
          ((ligne p, destination p) = (ligne q, destination q))"
    by (simp add: p_ramonville_1052_def p_labege_1055_def p_ramonville_1115_def
          p_castanet_1205_def paris_passage_def)
  have c: "first_of_each_pair ?four = [p_ramonville_1052, p_labege_1055, p_castanet_1205]"
    using ex [THEN conjunct2, THEN conjunct2, THEN conjunct2, THEN mp, OF K] a by simp
  from inits a b c show ?thesis by simp
qed

text \<open>
  C2 as stated fails: line "A : B" to "C" and line "A" to "B : C" are two distinct pairs,
  so the first occurrence of each pair is both passages, and the loop returns the first
  one only.
\<close>

theorem dedup_merges_distinct_pairs:
  "Passage_init sample_env ''2024-01-15 10:52:00'' ''A : B'' ''C'' = Inr p_colon_line
   \<and> Passage_init sample_env ''2024-01-15 10:55:00'' ''A'' ''B : C'' = Inr p_colon_destination
   \<and> first_of_each_pair [p_colon_line, p_colon_destination] =
       [p_colon_line, p_colon_destination]
   \<and> filter_passages sample_env [p_colon_line, p_colon_destination] None None = [p_colon_line]"
proof -
  have a: "first_of_each_pair [p_colon_line, p_colon_destination] =
       [p_colon_line, p_colon_destination]"
    by (simp add: p_colon_line_def p_colon_destination_def paris_passage_def)
  have b: "filter_passages sample_env [p_colon_line, p_colon_destination] None None =
       [p_colon_line]"
    by (simp add: filter_passages_unfiltered p_colon_line_def p_colon_destination_def
          paris_passage_def)
  from a b init_colon_line init_colon_destination show ?thesis by simp
qed

text \<open>
  C10: the deduplication compares the key "{line} : {destination}" and not the pair.
  Line "A : B" with destination "C" and line "A" with destination "B : C" are distinct
  pairs with the same key "A : B : C", and of the two passages the later one is dropped.
  In general a passage appended to a list is dropped exactly when its key is the key of a
  passage of the list, whatever its pair is.
\<close>

theorem flat_key_collision:
  "(Passage_init e t1 ''A : B'' ''C'' = Inr p1 \<and> Passage_init e t2 ''A'' ''B : C'' = Inr p2 \<longrightarrow>
      ligne_destination p1 = ''A : B : C'' \<and> ligne_destination p2 = ''A : B : C''
      \<and> (ligne p1, destination p1) \<noteq> (ligne p2, destination p2)
      \<and> filter_passages e [p1, p2] None None = [p1])
   \<and> (ligne_destination q \<in> ligne_destination ` set ps \<longrightarrow>
        filter_passages e (ps @ [q]) None None = filter_passages e ps None None)
   \<and> (ligne_destination q \<notin> ligne_destination ` set ps \<longrightarrow>
        filter_passages e (ps @ [q]) None None = filter_passages e ps None None @ [q])"
proof (intro conjI impI)
  assume h: "Passage_init e t1 ''A : B'' ''C'' = Inr p1 \<and> Passage_init e t2 ''A'' ''B : C'' = Inr p2"
  note f1 = Passage_init_fields [OF h [THEN conjunct1]]
  note f2 = Passage_init_fields [OF h [THEN conjunct2]]
  show k1: "ligne_destination p1 = ''A : B : C''" using f1 by simp
  show k2: "ligne_destination p2 = ''A : B : C''" using f2 by simp
  show "(ligne p1, destination p1) \<noteq> (ligne p2, destination p2)" using f1 f2 by simp
  show "filter_passages e [p1, p2] None None = [p1]"
    by (simp add: filter_passages_unfiltered k1 k2)
next
  assume "ligne_destination q \<in> ligne_destination ` set ps"
  then show "filter_passages e (ps @ [q]) None None = filter_passages e ps None None"
    by (simp add: filter_passages_unfiltered dedup_loop_snoc)
next
  assume "ligne_destination q \<notin> ligne_destination ` set ps"
  then show "filter_passages e (ps @ [q]) None None = filter_passages e ps None None @ [q]"
    by (simp add: filter_passages_unfiltered dedup_loop_snoc)
qed

theorem flat_key_collision_witness:
  "Passage_init sample_env ''2024-01-15 10:52:00'' ''A : B'' ''C'' = Inr p_colon_line
   \<and> Passage_init sample_env ''2024-01-15 10:55:00'' ''A'' ''B : C'' = Inr p_colon_destination
   \<and> ligne_destination p_colon_line = ''A : B : C''
   \<and> ligne_destination p_colon_destination = ''A : B : C''
   \<and> (ligne p_colon_line, destination p_colon_line) \<noteq>
       (ligne p_colon_destination, destination p_colon_destination)
   \<and> filter_passages sample_env [p_colon_line, p_colon_destination] None None = [p_colon_line]
   \<and> ligne_destination p_colon_destination \<in>
       ligne_destination ` set [p_colon_line, p_labege_1055]
   \<and> filter_passages sample_env ([p_colon_line, p_labege_1055] @ [p_colon_destination])
        None None = [p_colon_line, p_labege_1055]
   \<and> ligne_destination p_castanet_1205 \<notin>
       ligne_destination ` set [p_colon_line, p_labege_1055]
   \<and> filter_passages sample_env ([p_colon_line, p_labege_1055] @ [p_castanet_1205])
        None None = [p_colon_line, p_labege_1055, p_castanet_1205]"
proof -
  note c = flat_key_collision [of sample_env "''2024-01-15 10:52:00''" p_colon_line
                  "''2024-01-15 10:55:00''" p_colon_destination
                  p_colon_destination "[p_colon_line, p_labege_1055]"]
  note c' = flat_key_collision [of sample_env "''2024-01-15 10:52:00''" p_colon_line
                  "''2024-01-15 10:55:00''" p_colon_destination
                  p_castanet_1205 "[p_colon_line, p_labege_1055]"]
  have inits: "Passage_init sample_env ''2024-01-15 10:52:00'' ''A : B'' ''C'' = Inr p_colon_line
     \<and> Passage_init sample_env ''2024-01-15 10:55:00'' ''A'' ''B : C'' = Inr p_colon_destination"
    using init_colon_line init_colon_destination by (intro conjI)
  note first = c [THEN conjunct1, THEN mp, OF inits]
  have mem: "ligne_destination p_colon_destination \<in>
       ligne_destination ` set [p_colon_line, p_labege_1055]"
    by (simp add: p_colon_line_def p_colon_destination_def paris_passage_def)
  have nmem: "ligne_destination p_castanet_1205 \<notin>
       ligne_destination ` set [p_colon_line, p_labege_1055]"
    by (simp add: p_colon_line_def p_labege_1055_def p_castanet_1205_def paris_passage_def)
  have base: "filter_passages sample_env [p_colon_line, p_labege_1055] None None =
       [p_colon_line, p_labege_1055]"
    by (simp add: filter_passages_unfiltered p_colon_line_def p_labege_1055_def
          paris_passage_def)
  have d: "filter_passages sample_env ([p_colon_line, p_labege_1055] @ [p_colon_destination])
        None None = [p_colon_line, p_labege_1055]"
    using c [THEN conjunct2, THEN conjunct1, THEN mp, OF mem] base by simp
  have k: "filter_passages sample_env ([p_colon_line, p_labege_1055] @ [p_castanet_1205])
        None None = [p_colon_line, p_labege_1055, p_castanet_1205]"
    using c' [THEN conjunct2, THEN conjunct2, THEN mp, OF nmem] base by simp
  from inits first mem nmem d k show ?thesis by (intro conjI) simp_all
qed


end
